theory Spec2Isabelle
  imports Main
begin

section \<open>Python values\<close>

text \<open>
  A Python \<open>str\<close> is a sequence of Unicode code points, so it is modelled as a list of
  natural numbers and not as a list of bytes: \<open>len\<close> and slicing count code points.
  \<open>ascii\<close> turns an ASCII literal into that list; a character outside ASCII is written
  as its code point.
\<close>

type_synonym pystr = "nat list"

definition ascii :: "string \<Rightarrow> pystr" where
  "ascii s = map of_char s"

text \<open>
  The values that \<open>main.py\<close> builds are dict, list and str displays only, so the data
  handed to the importer is a tree of these three. A dict keeps its insertion order
  (the order \<open>json.dumps\<close> emits), hence an association list.
\<close>

datatype pydata =
    PStr pystr
  | PList "pydata list"
  | PDict "(pystr \<times> pydata) list"

text \<open>
  \<open>d[k] = v\<close> on a dict: an existing key keeps its place and takes the new value, a
  new key goes to the end. A dict display \<open>{k1: v1, k2: v2, ...}\<close> stores its items
  from left to right, so a repeated key keeps the last value.
\<close>

fun dict_set :: "('k \<times> 'v) list \<Rightarrow> 'k \<Rightarrow> 'v \<Rightarrow> ('k \<times> 'v) list" where
  "dict_set [] k v = [(k, v)]"
| "dict_set ((k', v') # d) k v = (if k' = k then (k, v) # d else (k', v') # dict_set d k v)"

fun dict_store :: "('k \<times> 'v) list \<Rightarrow> ('k \<times> 'v) list \<Rightarrow> ('k \<times> 'v) list" where
  "dict_store d [] = d"
| "dict_store d ((k, v) # items) = dict_store (dict_set d k v) items"

definition dict_display :: "('k \<times> 'v) list \<Rightarrow> ('k \<times> 'v) list" where
  "dict_display items = dict_store [] items"

text \<open>
  What \<open>response.json()\<close> can return: any JSON value as Python reads it. A float is
  kept as the three fields of its IEEE 754 binary64 representation; the program only
  asks whether it is zero.
\<close>

datatype pyfloat = Float64 (sign_bit: bool) (biased_exponent: nat) (fraction: nat)

datatype jsonval =
    JNull
  | JBool bool
  | JInt int
  | JFloat pyfloat
  | JStr pystr
  | JList "jsonval list"
  | JDict "(pystr \<times> jsonval) list"

text \<open>Truth value testing, as \<open>if x:\<close> does it.\<close>

fun truthy :: "jsonval \<Rightarrow> bool" where
  "truthy JNull = False"
| "truthy (JBool b) = b"
| "truthy (JInt i) = (i \<noteq> 0)"
| "truthy (JFloat f) = (\<not> (biased_exponent f = 0 \<and> fraction f = 0))"
| "truthy (JStr s) = (s \<noteq> [])"
| "truthy (JList xs) = (xs \<noteq> [])"
| "truthy (JDict kvs) = (kvs \<noteq> [])"

section \<open>Exceptions\<close>

text \<open>
  The classes of \<open>requests.exceptions\<close> that decide which handler of
  \<open>send_to_tunexa\<close> runs, with the library's own hierarchy: \<open>ProxyError\<close>,
  \<open>SSLError\<close> and \<open>ConnectTimeout\<close> derive from \<open>ConnectionError\<close>;
  \<open>ConnectTimeout\<close> and \<open>ReadTimeout\<close> derive from \<open>Timeout\<close>
  (\<open>class ConnectTimeout(ConnectionError, Timeout)\<close>). Every other subclass of
  \<open>Exception\<close> is \<open>OtherError\<close> with its class name.
\<close>

datatype exc_class =
    ConnectionError
  | ProxyError
  | SSLError
  | ConnectTimeout
  | ReadTimeout
  | Timeout
  | JSONDecodeError
  | OSError
  | OtherError pystr

text \<open>
  An exception is either raised by a library or the interpreter's environment, with its
  class and its text (\<open>str(e)\<close>), or by an operation of the program itself on a value of
  the wrong type: an attribute that the value does not have, \<open>len\<close> of a value without
  a length, a subscript or slice that the value does not support, a loop over a value
  that cannot be iterated, a subscript with a missing key, a \<open>print\<close> of a str that
  the console cannot encode; or by the import system: a \<open>SyntaxError\<close> at a line of a
  file, or a name that the imported module does not bind.
  Only instances of \<open>Exception\<close> are modelled; \<open>KeyboardInterrupt\<close> and the like are
  outside the model, and so are the limits of the machine (\<open>MemoryError\<close>,
  \<open>RecursionError\<close>).
\<close>

datatype pyexc =
    Raised exc_class pystr
  | NoAttribute jsonval pystr
  | NoLen jsonval
  | BadSubscript jsonval
  | NotIterable jsonval
  | NoKey pystr
  | NotEncodable jsonval
  | InvalidSyntax pystr nat
  | CannotImportName pystr pystr

fun isinstance_ConnectionError :: "pyexc \<Rightarrow> bool" where
  "isinstance_ConnectionError (Raised c msg) = (c \<in> {ConnectionError, ProxyError, SSLError, ConnectTimeout})"
| "isinstance_ConnectionError e = False"


section \<open>Effects\<close>

text \<open>
  A printed line is the list of the pieces of its f-string: literal text, a value
  shown with \<open>str()\<close>, or the text of an exception. The run of the program is the list
  of its events, in order: a line printed, a request sent to a server (a \<open>POST\<close> with
  its URL, headers, body and time-out, or a \<open>GET\<close> with its URL and time-out), an
  \<open>open(filename, 'w')\<close>, and the content written to the opened file.
\<close>

datatype piece = Lit pystr | Val jsonval | ExcText pyexc

type_synonym line = "piece list"

datatype event =
    Print line
  | Post pystr "(pystr \<times> pystr) list" pystr nat
  | Get pystr nat
  | Open pystr
  | Write pystr pystr

type_synonym 'a io = "event list \<Rightarrow> (pyexc + 'a) \<times> event list"

definition ret :: "'a \<Rightarrow> 'a io" where
  "ret x = (\<lambda>tr. (Inr x, tr))"

definition raise :: "pyexc \<Rightarrow> 'a io" where
  "raise e = (\<lambda>tr. (Inl e, tr))"

definition lift :: "pyexc + 'a \<Rightarrow> 'a io" where
  "lift r = (\<lambda>tr. (r, tr))"

definition emit :: "event \<Rightarrow> unit io" where
  "emit ev = (\<lambda>tr. (Inr (), tr @ [ev]))"

definition bind :: "'a io \<Rightarrow> ('a \<Rightarrow> 'b io) \<Rightarrow> 'b io" where
  "bind m f = (\<lambda>tr. case m tr of (Inl e, tr') \<Rightarrow> (Inl e, tr') | (Inr x, tr') \<Rightarrow> f x tr')"

definition next_do :: "unit io \<Rightarrow> 'b io \<Rightarrow> 'b io" where
  "next_do m k = bind m (\<lambda>u. k)"

definition try_except :: "'a io \<Rightarrow> (pyexc \<Rightarrow> 'a io) \<Rightarrow> 'a io" where
  "try_except m handler = (\<lambda>tr. case m tr of (Inl e, tr') \<Rightarrow> handler e tr' | (Inr x, tr') \<Rightarrow> (Inr x, tr'))"

fun for_each :: "'a list \<Rightarrow> ('a \<Rightarrow> unit io) \<Rightarrow> unit io" where
  "for_each [] f = ret ()"
| "for_each (x # xs) f = next_do (f x) (for_each xs f)"

text \<open>
  \<open>print\<close> writes to a console that encodes as UTF-8. Every code point has an
  encoding but the surrogates, \<open>0xD800\<close> to \<open>0xDFFF\<close>. A str read from a JSON body can
  hold one, since \<open>json\<close> decodes the escape \<open>\ud800\<close> to it, and then \<open>print\<close> of
  that str raises \<open>UnicodeEncodeError\<close> and writes nothing of the line. Shown inside a
  list or a dict a str appears by its \<open>repr\<close>, which escapes a surrogate, and the other
  values are shown in ASCII. The literals of the program, \<open>response.text\<close> (which the
  library decodes from bytes) and the texts of exceptions are taken to hold no
  surrogate.
\<close>

definition is_surrogate :: "nat \<Rightarrow> bool" where
  "is_surrogate c = (0xD800 \<le> c \<and> c \<le> 0xDFFF)"

fun printable :: "jsonval \<Rightarrow> bool" where
  "printable (JStr s) = list_all (\<lambda>c. \<not> is_surrogate c) s"
| "printable v = True"

fun first_unprintable :: "line \<Rightarrow> jsonval option" where
  "first_unprintable [] = None"
| "first_unprintable (Val v # ps) = (if printable v then first_unprintable ps else Some v)"
| "first_unprintable (p # ps) = first_unprintable ps"

definition py_print :: "line \<Rightarrow> unit io" where
  "py_print l =
     (case first_unprintable l of
        None \<Rightarrow> emit (Print l)
      | Some v \<Rightarrow> raise (NotEncodable v))"

text \<open>
  The text of a printed line, given what \<open>str()\<close> makes of a value and of an
  exception.
\<close>

fun render_piece :: "(jsonval \<Rightarrow> pystr) \<Rightarrow> (pyexc \<Rightarrow> pystr) \<Rightarrow> piece \<Rightarrow> pystr" where
  "render_piece str_val str_exc (Lit s) = s"
| "render_piece str_val str_exc (Val v) = str_val v"
| "render_piece str_val str_exc (ExcText e) = str_exc e"

definition render :: "(jsonval \<Rightarrow> pystr) \<Rightarrow> (pyexc \<Rightarrow> pystr) \<Rightarrow> line \<Rightarrow> pystr" where
  "render str_val str_exc l = concat (map (render_piece str_val str_exc) l)"

text \<open>
  The kinds of event: a \<open>POST\<close> sent, a request of either method sent, and a file
  opened or written.
\<close>

fun is_post :: "event \<Rightarrow> bool" where
  "is_post (Post url headers body timeout) = True"
| "is_post ev = False"


fun is_file_event :: "event \<Rightarrow> bool" where
  "is_file_event (Open filename) = True"
| "is_file_event (Write filename content) = True"
| "is_file_event ev = False"

text \<open>A computation that does nothing but print, whatever it returns or raises.\<close>

definition prints_only :: "'a io \<Rightarrow> bool" where
  "prints_only m = (\<forall>tr. \<exists>ls. snd (m tr) = tr @ map Print ls)"

section \<open>\<open>json.dumps\<close> and \<open>json.dump\<close>\<close>

text \<open>
  The encoder of the \<open>json\<close> module, as the program calls it: \<open>ensure_ascii=False\<close>,
  so a string is written between double quotes with only the backslash, the double
  quote and the control characters below \<open>0x20\<close> escaped (\<open>\b \f \n \r \t\<close> by their
  short forms, the others as \<open>\u00XX\<close> in lower-case hexadecimal) and every other code
  point, ASCII or not, copied as it is.
\<close>

definition hexdigit :: "nat \<Rightarrow> nat" where
  "hexdigit n = (if n < 10 then 48 + n else 87 + n)"

definition escape_char :: "nat \<Rightarrow> pystr" where
  "escape_char c =
     (if c = 92 then [92, 92]
      else if c = 34 then [92, 34]
      else if c = 8 then [92, 98]
      else if c = 12 then [92, 102]
      else if c = 10 then [92, 110]
      else if c = 13 then [92, 114]
      else if c = 9 then [92, 116]
      else if c < 32 then [92, 117, 48, 48, hexdigit (c div 16), hexdigit (c mod 16)]
      else [c])"

definition encode_basestring :: "pystr \<Rightarrow> pystr" where
  "encode_basestring s = [34] @ concat (map escape_char s) @ [34]"

text \<open>
  The containers. \<open>indent\<close> is \<open>None\<close> for \<open>json.dumps(data, ensure_ascii=False)\<close>,
  where items are separated by a comma and a space, and \<open>Some 2\<close> for
  \<open>json.dump(data, f, ensure_ascii=False, indent=2)\<close>, where the item separator is a
  comma alone and every item starts on a new line, indented by two spaces for each
  level. Key and value are separated by a colon and a space in both. An empty list is
  \<open>[]\<close> and an empty dict is \<open>{}\<close>, with nothing between the brackets. The limit
  that the interpreter puts on the depth of recursion is outside the model.
\<close>

definition newline_indent :: "nat option \<Rightarrow> nat \<Rightarrow> pystr" where
  "newline_indent indent level =
     (case indent of None \<Rightarrow> [] | Some n \<Rightarrow> 10 # replicate (n * level) 32)"

definition item_separator :: "nat option \<Rightarrow> nat \<Rightarrow> pystr" where
  "item_separator indent level =
     (case indent of None \<Rightarrow> [44, 32] | Some n \<Rightarrow> 44 # newline_indent indent level)"

definition key_separator :: pystr where
  "key_separator = [58, 32]"

fun iterencode :: "nat option \<Rightarrow> nat \<Rightarrow> pydata \<Rightarrow> pystr"
  and iterencode_list :: "nat option \<Rightarrow> nat \<Rightarrow> pydata list \<Rightarrow> pystr"
  and iterencode_dict :: "nat option \<Rightarrow> nat \<Rightarrow> (pystr \<times> pydata) list \<Rightarrow> pystr"
where
  "iterencode indent level (PStr s) = encode_basestring s"
| "iterencode indent level (PList []) = [91, 93]"
| "iterencode indent level (PList (x # xs)) =
     [91] @ newline_indent indent (level + 1) @ iterencode indent (level + 1) x
       @ iterencode_list indent (level + 1) xs @ newline_indent indent level @ [93]"
| "iterencode indent level (PDict []) = [123, 125]"
| "iterencode indent level (PDict ((k, v) # kvs)) =
     [123] @ newline_indent indent (level + 1)
       @ encode_basestring k @ key_separator @ iterencode indent (level + 1) v
       @ iterencode_dict indent (level + 1) kvs @ newline_indent indent level @ [125]"
| "iterencode_list indent level [] = []"
| "iterencode_list indent level (x # xs) =
     item_separator indent level @ iterencode indent level x @ iterencode_list indent level xs"
| "iterencode_dict indent level [] = []"
| "iterencode_dict indent level ((k, v) # kvs) =
     item_separator indent level @ encode_basestring k @ key_separator
       @ iterencode indent level v @ iterencode_dict indent level kvs"

definition json_dumps :: "nat option \<Rightarrow> pydata \<Rightarrow> pystr" where
  "json_dumps indent obj = iterencode indent 0 obj"

section \<open>Operations of the interpreter on values\<close>

text \<open>\<open>len(data)\<close> on the data handed to the importer: defined for str, list and dict.\<close>

fun data_len :: "pydata \<Rightarrow> nat" where
  "data_len (PStr s) = length s"
| "data_len (PList xs) = length xs"
| "data_len (PDict kvs) = length kvs"

text \<open>
  \<open>result.get(key, default)\<close>: only a dict has the method; on any other value the
  attribute lookup raises \<open>AttributeError\<close>.
\<close>

definition dict_get :: "(pystr \<times> 'v) list \<Rightarrow> pystr \<Rightarrow> 'v \<Rightarrow> 'v" where
  "dict_get kvs key dflt = (case map_of kvs key of Some v \<Rightarrow> v | None \<Rightarrow> dflt)"

fun py_get :: "jsonval \<Rightarrow> pystr \<Rightarrow> jsonval \<Rightarrow> pyexc + jsonval" where
  "py_get (JDict kvs) key dflt = Inr (dict_get kvs key dflt)"
| "py_get v key dflt = Inl (NoAttribute v (ascii ''get''))"

text \<open>\<open>result[key]\<close> with a str key: a dict looks the key up, no other value accepts it.\<close>

fun py_getitem :: "jsonval \<Rightarrow> pystr \<Rightarrow> pyexc + jsonval" where
  "py_getitem (JDict kvs) key =
     (case map_of kvs key of Some v \<Rightarrow> Inr v | None \<Rightarrow> Inl (NoKey key))"
| "py_getitem v key = Inl (BadSubscript v)"

text \<open>\<open>len(x)\<close>: str, list and dict have a length; \<open>None\<close>, bool, int and float do not.\<close>

fun py_len :: "jsonval \<Rightarrow> pyexc + nat" where
  "py_len (JStr s) = Inr (length s)"
| "py_len (JList xs) = Inr (length xs)"
| "py_len (JDict kvs) = Inr (length kvs)"
| "py_len v = Inl (NoLen v)"

text \<open>\<open>x[:n]\<close>: a list and a str are sliced; a dict and the scalars are not.\<close>

fun py_slice_to :: "jsonval \<Rightarrow> nat \<Rightarrow> pyexc + jsonval" where
  "py_slice_to (JList xs) n = Inr (JList (take n xs))"
| "py_slice_to (JStr s) n = Inr (JStr (take n s))"
| "py_slice_to v n = Inl (BadSubscript v)"

text \<open>
  \<open>for err in x\<close>: a list yields its elements, a str its characters as strings of
  length one, a dict its keys; the scalars cannot be iterated.
\<close>

fun py_iter :: "jsonval \<Rightarrow> pyexc + jsonval list" where
  "py_iter (JList xs) = Inr xs"
| "py_iter (JStr s) = Inr (map (\<lambda>c. JStr [c]) s)"
| "py_iter (JDict kvs) = Inr (map (\<lambda>kv. JStr (fst kv)) kvs)"
| "py_iter v = Inl (NotIterable v)"

section \<open>The network and the file system\<close>

text \<open>
  The three things \<open>send_to_tunexa\<close> reads from a response: \<open>response.status_code\<close>,
  \<open>response.text\<close>, and what \<open>response.json()\<close> does, which is to return the parsed
  body or to raise.
\<close>

record response =
  status_code :: int
  resp_text :: pystr
  resp_json :: "pyexc + jsonval"

text \<open>
  What the network does with a request is a parameter of the model: it answers with a
  response that the library returns, or the request fails with an exception, or it
  answers with a redirect, a status 301, 302, 303, 307 or 308 with a \<open>Location\<close>, and
  then does one of the three with the request that follows.
\<close>

datatype redirect = Moved301 | Found302 | SeeOther303 | Temporary307 | Permanent308

datatype post_outcome =
    Responds response
  | Fails pyexc
  | Redirects redirect pystr post_outcome


text \<open>
  \<open>requests.post(url, headers=..., data=..., timeout=...)\<close> is called without
  \<open>allow_redirects\<close>, so the library follows redirects. After a 307 or a 308 it sends
  the request again to the new location, a \<open>POST\<close> with its headers and body; after a
  301, 302 or 303 it sends a \<open>GET\<close>, without the body and without the
  \<open>Content-Type\<close> header. Every request has the time-out of the call. The library
  follows 30 redirects; at the next one it raises \<open>TooManyRedirects\<close>, which is not a
  \<open>ConnectionError\<close>.
\<close>

fun redirected :: "redirect \<Rightarrow> pystr \<Rightarrow> event \<Rightarrow> event" where
  "redirected kind location (Post url headers body timeout) =
     (if kind = Temporary307 \<or> kind = Permanent308
      then Post location headers body timeout
      else Get location timeout)"
| "redirected kind location (Get url timeout) = Get location timeout"
| "redirected kind location ev = ev"

fun follow :: "nat \<Rightarrow> event \<Rightarrow> post_outcome \<Rightarrow> response io" where
  "follow n request (Responds r) = next_do (emit request) (ret r)"
| "follow n request (Fails e) = next_do (emit request) (raise e)"
| "follow n request (Redirects kind location next) =
     next_do (emit request)
       (if 30 \<le> n
        then raise (Raised (OtherError (ascii ''TooManyRedirects''))
                      (ascii ''Exceeded 30 redirects.''))
        else follow (Suc n) (redirected kind location request) next)"

definition requests_post ::
  "post_outcome \<Rightarrow> pystr \<Rightarrow> (pystr \<times> pystr) list \<Rightarrow> pystr \<Rightarrow> nat \<Rightarrow> response io" where
  "requests_post net url headers body timeout = follow 0 (Post url headers body timeout) net"

text \<open>
  The \<open>with open(filename, 'w', encoding='utf-8')\<close> block of \<open>export_to_json_file\<close>:
  the file system either accepts it (the file is opened, the text is encoded and
  written, the file is closed) or rejects it with an exception, which nothing in the
  program catches. What a rejected block leaves in the file is not modelled.
\<close>

datatype fs_outcome = Accepts | Rejects pyexc

definition write_file :: "fs_outcome \<Rightarrow> pystr \<Rightarrow> pystr \<Rightarrow> unit io" where
  "write_file fs filename content =
     next_do (emit (Open filename))
       (case fs of Accepts \<Rightarrow> emit (Write filename content) | Rejects e \<Rightarrow> raise e)"

section \<open>\<open>send_to_api.py\<close>\<close>

definition API_URL :: pystr where
  "API_URL = ascii ''http://localhost:3000/api/vehicle-speakers/import''"

definition check_mark :: pystr where
  "check_mark = [0x2705]"

definition cross_mark :: pystr where
  "cross_mark = [0x274C]"

text \<open>One line of the summary: \<open>print(f"   Label: {result.get(key, 0)}")\<close>.\<close>

definition print_count :: "jsonval \<Rightarrow> pystr \<Rightarrow> pystr \<Rightarrow> unit io" where
  "print_count result label key =
     bind (lift (py_get result key (JInt 0))) (\<lambda>v. py_print [Lit label, Val v])"

text \<open>
  Lines 36 to 39: the errors section, printed when \<open>result.get('errors')\<close> is true.
\<close>

definition print_errors :: "jsonval \<Rightarrow> unit io" where
  "print_errors result =
     bind (lift (py_get result (ascii ''errors'') JNull)) (\<lambda>errors.
       if truthy errors then
         bind (lift (py_getitem result (ascii ''errors''))) (\<lambda>errs.
         bind (lift (py_len errs)) (\<lambda>n.
         next_do (py_print [Lit (ascii ''   Errors: ''), Val (JInt (int n))])
        (bind (lift (py_getitem result (ascii ''errors''))) (\<lambda>errs'.
         bind (lift (py_slice_to errs' 5)) (\<lambda>first5.
         bind (lift (py_iter first5)) (\<lambda>items.
         for_each items (\<lambda>err. py_print [Lit (ascii ''      - ''), Val err])))))))
       else ret ())"

text \<open>Lines 29 to 40: the branch for status 200.\<close>

definition on_status_200 :: "response \<Rightarrow> bool io" where
  "on_status_200 resp =
     bind (lift (resp_json resp)) (\<lambda>result.
     next_do (py_print [Lit ([10] @ check_mark @ ascii '' Import successful!'')])
    (next_do (print_count result (ascii ''   Brands processed: '') (ascii ''brands''))
    (next_do (print_count result (ascii ''   Models processed: '') (ascii ''models''))
    (next_do (print_count result (ascii ''   Created: '') (ascii ''created''))
    (next_do (print_count result (ascii ''   Updated: '') (ascii ''updated''))
    (next_do (print_count result (ascii ''   Skipped: '') (ascii ''skipped''))
    (next_do (print_errors result)
    (ret True))))))))"

text \<open>Lines 42 to 44: the branch for any other status.\<close>

definition on_other_status :: "response \<Rightarrow> bool io" where
  "on_other_status resp =
     next_do (py_print [Lit (cross_mark @ ascii '' Error: HTTP ''), Val (JInt (status_code resp))])
    (next_do (py_print [Lit (resp_text resp)])
    (ret False))"

text \<open>Lines 47 to 49 and 51 to 52: the two handlers, tried in this order.\<close>

definition on_connection_error :: "bool io" where
  "on_connection_error =
     next_do (py_print [Lit (cross_mark @ ascii '' Connection error - is the Tunexa API server running on port 3000?'')])
    (next_do (py_print [Lit (ascii ''   Run: npm start'')])
    (ret False))"

definition on_exception :: "pyexc \<Rightarrow> bool io" where
  "on_exception e =
     next_do (py_print [Lit (cross_mark @ ascii '' Error: ''), ExcText e])
    (ret False)"

definition send_to_tunexa :: "pydata \<Rightarrow> post_outcome \<Rightarrow> bool io" where
  "send_to_tunexa data net =
     try_except
       (next_do (py_print [Lit (ascii ''Sending ''), Val (JInt (int (data_len data))),
                           Lit (ascii '' brands to Tunexa API...'')])
       (bind (requests_post net API_URL
                [(ascii ''Content-Type'', ascii ''application/json'')]
                (json_dumps None data) 30) (\<lambda>resp.
          if status_code resp = 200 then on_status_200 resp else on_other_status resp)))
       (\<lambda>e. if isinstance_ConnectionError e then on_connection_error else on_exception e)"

definition export_to_json_file :: "pydata \<Rightarrow> pystr \<Rightarrow> fs_outcome \<Rightarrow> unit io" where
  "export_to_json_file data filename fs =
     next_do (write_file fs filename (json_dumps (Some 2) data))
    (next_do (py_print [Lit (check_mark @ ascii '' Exported to '' @ filename)])
    (py_print [Lit (ascii ''   You can copy/paste this into http://localhost:3000/speakers'')]))"

definition default_filename :: pystr where
  "default_filename = ascii ''auto_audio_db.json''"

text \<open>The lines printed after the export, lines 72 to 76.\<close>

definition manual_import_instructions :: "line list" where
  "manual_import_instructions =
     [[Lit ([10] @ ascii ''Then manually import via web UI:'')],
      [Lit (ascii ''1. Open http://localhost:3000/speakers'')],
      [Lit (ascii ''2. Scroll to 'Bulk Import' section'')],
      [Lit (ascii ''3. Paste JSON from auto_audio_db.json'')],
      [Lit (ascii ''4. Click 'Import JSON '' @ [0x2192] @ ascii '' DB'' @ [39])]]"

text \<open>Lines 61 to 76: the block under \<open>if __name__ == "__main__"\<close>.\<close>

definition main_block :: "pydata \<Rightarrow> post_outcome \<Rightarrow> fs_outcome \<Rightarrow> unit io" where
  "main_block auto_audio_db net fs =
     next_do (py_print [Lit ([0x1F3B5] @ ascii '' Tunexa Auto Audio DB '' @ [0x2192]
                             @ ascii '' API Import Tool'' @ [10])])
    (next_do (py_print [Lit (ascii ''Option 1: Send to API'')])
    (bind (send_to_tunexa auto_audio_db net) (\<lambda>success.
       if \<not> success then
         next_do (py_print [Lit ([10] @ ascii ''Option 2: Export to JSON file'')])
        (next_do (export_to_json_file auto_audio_db default_filename fs)
        (for_each manual_import_instructions py_print))
       else ret ())))"

section \<open>Importing \<open>main.py\<close>\<close>

text \<open>
  A module is the list of what stands at its top level: an assignment of a display
  to a name, a \<open>print\<close> of a string literal, or a fragment that is no statement at all,
  kept with the line it starts on and the \<open>key: value\<close> items it spells. Python
  compiles the whole file before it runs any of it, so a module with such a fragment
  raises \<open>SyntaxError\<close> at the first one and none of its statements takes effect.
\<close>

datatype toplevel =
    Assign pystr pydata
  | PrintStmt pystr
  | Stray nat "(pystr \<times> pydata) list"

fun first_stray :: "toplevel list \<Rightarrow> nat option" where
  "first_stray [] = None"
| "first_stray (Stray ln items # rest) = Some ln"
| "first_stray (stmt # rest) = first_stray rest"

fun run_toplevel :: "toplevel list \<Rightarrow> (pystr \<times> pydata) list \<Rightarrow> (pystr \<times> pydata) list io" where
  "run_toplevel [] globals = ret globals"
| "run_toplevel (Assign name v # rest) globals = run_toplevel rest (dict_set globals name v)"
| "run_toplevel (PrintStmt s # rest) globals =
     next_do (py_print [Lit s]) (run_toplevel rest globals)"
| "run_toplevel (Stray ln items # rest) globals = raise (InvalidSyntax (ascii ''main.py'') ln)"

definition exec_module :: "toplevel list \<Rightarrow> (pystr \<times> pydata) list io" where
  "exec_module m =
     (case first_stray m of
        Some ln \<Rightarrow> raise (InvalidSyntax (ascii ''main.py'') ln)
      | None \<Rightarrow> run_toplevel m [])"

text \<open>\<open>from main import name\<close>.\<close>

definition import_from_main :: "toplevel list \<Rightarrow> pystr \<Rightarrow> pydata io" where
  "import_from_main m name =
     bind (exec_module m) (\<lambda>globals.
       case map_of globals name of
         Some v \<Rightarrow> ret v
       | None \<Rightarrow> raise (CannotImportName name (ascii ''main'')))"

text \<open>
  \<open>send_to_api.py\<close> run as a script: the guarded import of lines 9 to 12, then the
  main block. The process ends normally, or with \<open>SystemExit\<close> and its message, or
  with an exception that nothing caught.
\<close>

datatype exit_status = Completed | SystemExit line | Uncaught pyexc

definition import_failure_message :: pystr where
  "import_failure_message =
     ascii ''Nebolo mo'' @ [0x17E] @ ascii ''n'' @ [0xE9] @ ascii '' importova'' @ [0x165]
       @ ascii '' auto_audio_db z main.py: ''"

definition send_to_api :: "toplevel list \<Rightarrow> post_outcome \<Rightarrow> fs_outcome \<Rightarrow> exit_status \<times> event list" where
  "send_to_api main_module net fs =
     (case import_from_main main_module (ascii ''auto_audio_db'') [] of
        (Inl e, tr) \<Rightarrow> (SystemExit [Lit import_failure_message, ExcText e], tr)
      | (Inr auto_audio_db, tr) \<Rightarrow>
          (case main_block auto_audio_db net fs tr of
             (Inl e, tr') \<Rightarrow> (Uncaught e, tr')
           | (Inr u, tr') \<Rightarrow> (Completed, tr')))"

section \<open>\<open>main.py\<close>\<close>

text \<open>
  The file as it is written. Lines 14 to 124 and 128 to 325 are two dict displays,
  assigned to \<open>vag_group_data\<close> and \<open>german_premium_data\<close>. Line 326 starts, indented
  and with a comma, a run of further \<open>brand: {...}\<close> items that ends with a closing
  brace on line 419; lines 420 to 509 are another such run, without a closing brace.
  Neither run belongs to a statement. The items of all four are given first.
\<close>

definition vag_group_items :: "(pystr \<times> pydata) list" where
  "vag_group_items =
    [
      (ascii ''Skoda'', PDict (dict_display [
         (ascii ''Octavia'', PList [
           PDict (dict_display
               [(ascii ''generacia'', PStr (ascii ''Gen 3 (5E)'')),
                (ascii ''roky'', PStr (ascii ''2012-2019'')),
                (ascii ''zakladny_system'', PStr (ascii ''Z'' @ [0xE1] @ ascii ''kladn'' @ [0xFD] @ ascii '' (4-8 repro)'')),
                (ascii ''premiovy_system'', PStr (ascii ''Canton Sound System (10 repro)''))]),
           PDict (dict_display
               [(ascii ''generacia'', PStr (ascii ''Gen 4 (NX)'')),
                (ascii ''roky'', PStr (ascii ''2020-s'' @ [0xFA, 0x10D] @ ascii ''asnos'' @ [0x165])),
                (ascii ''zakladny_system'', PStr (ascii ''Z'' @ [0xE1] @ ascii ''kladn'' @ [0xFD] @ ascii '' (8 repro)'')),
                (ascii ''premiovy_system'', PStr (ascii ''Canton Sound System (12 repro)''))])]),
         (ascii ''Superb'', PList [
           PDict (dict_display
               [(ascii ''generacia'', PStr (ascii ''Gen 2 (3T) (Facelift)'')),
                (ascii ''roky'', PStr (ascii ''2013-2015'')),
                (ascii ''zakladny_system'', PStr ([0x27] @ ascii ''Swing'' @ [0x27] @ ascii '' / '' @ [0x27] @ ascii ''Bolero'' @ [0x27] @ ascii '' (8 repro)'')),
                (ascii ''premiovy_system'', PStr ([0x160] @ ascii ''koda Sound System (10 repro)''))]),
           PDict (dict_display
               [(ascii ''generacia'', PStr (ascii ''Gen 3 (3V)'')),
                (ascii ''roky'', PStr (ascii ''2015-2023'')),
                (ascii ''zakladny_system'', PStr ([0x27] @ ascii ''Swing'' @ [0x27] @ ascii '' / '' @ [0x27] @ ascii ''Bolero'' @ [0x27] @ ascii '' (8 repro)'')),
                (ascii ''premiovy_system'', PStr (ascii ''Canton Sound System (12 repro)''))])]),
         (ascii ''Kodiaq'', PList [
           PDict (dict_display
               [(ascii ''generacia'', PStr (ascii ''Gen 1'')),
                (ascii ''roky'', PStr (ascii ''2016-2023'')),
                (ascii ''zakladny_system'', PStr (ascii ''Z'' @ [0xE1] @ ascii ''kladn'' @ [0xFD] @ ascii '' (8 repro)'')),
                (ascii ''premiovy_system'', PStr (ascii ''Canton Sound System (10 repro)''))])]),
         (ascii ''Fabia'', PList [
           PDict (dict_display
               [(ascii ''generacia'', PStr (ascii ''Gen 3 (NJ)'')),
                (ascii ''roky'', PStr (ascii ''2014-2021'')),
                (ascii ''zakladny_system'', PStr (ascii ''Z'' @ [0xE1] @ ascii ''kladn'' @ [0xFD] @ ascii '' (4 repro)'')),
                (ascii ''premiovy_system'', PStr ([0x160] @ ascii ''koda Surround (6 repro, Arkamys)''))])])])),
      (ascii ''Volkswagen'', PDict (dict_display [
         (ascii ''Golf'', PList [
           PDict (dict_display
               [(ascii ''generacia'', PStr (ascii ''Gen 7 (Mk7)'')),
                (ascii ''roky'', PStr (ascii ''2012-2019'')),
                (ascii ''zakladny_system'', PStr ([0x27] @ ascii ''Composition'' @ [0x27] @ ascii '' (4-8 repro)'')),
                (ascii ''premiovy_system'', PStr (ascii ''Dynaudio Excite (10 repro)''))]),
           PDict (dict_display
               [(ascii ''generacia'', PStr (ascii ''Gen 8 (Mk8)'')),
                (ascii ''roky'', PStr (ascii ''2020-s'' @ [0xFA, 0x10D] @ ascii ''asnos'' @ [0x165])),
                (ascii ''zakladny_system'', PStr (ascii ''Z'' @ [0xE1] @ ascii ''kladn'' @ [0xFD] @ ascii '' (7 repro)'')),
                (ascii ''premiovy_system'', PStr (ascii ''Harman Kardon (10 repro)''))])]),
         (ascii ''Passat'', PList [
           PDict (dict_display
               [(ascii ''generacia'', PStr (ascii ''B7'')),
                (ascii ''roky'', PStr (ascii ''2010-2014'')),
                (ascii ''zakladny_system'', PStr ([0x27] @ ascii ''RCD 310'' @ [0x27] @ ascii '' (8 repro)'')),
                (ascii ''premiovy_system'', PStr (ascii ''Dynaudio Confidence (10 repro)''))]),
           PDict (dict_display
               [(ascii ''generacia'', PStr (ascii ''B8'')),
                (ascii ''roky'', PStr (ascii ''2014-2023'')),
                (ascii ''zakladny_system'', PStr ([0x27] @ ascii ''Composition Media'' @ [0x27] @ ascii '' (8 repro)'')),
                (ascii ''premiovy_system'', PStr (ascii ''Dynaudio Confidence (12 repro)''))])]),
         (ascii ''Tiguan'', PList [
           PDict (dict_display
               [(ascii ''generacia'', PStr (ascii ''Gen 1 (Facelift)'')),
                (ascii ''roky'', PStr (ascii ''2011-2016'')),
                (ascii ''zakladny_system'', PStr ([0x27] @ ascii ''RCD 310'' @ [0x27] @ ascii '' (8 repro)'')),
                (ascii ''premiovy_system'', PStr (ascii ''Dynaudio (8 repro)''))]),
           PDict (dict_display
               [(ascii ''generacia'', PStr (ascii ''Gen 2'')),
                (ascii ''roky'', PStr (ascii ''2016-2023'')),
                (ascii ''zakladny_system'', PStr (ascii ''Z'' @ [0xE1] @ ascii ''kladn'' @ [0xFD] @ ascii '' (8 repro)'')),
                (ascii ''premiovy_system'', PStr (ascii ''Dynaudio Excite (10 repro)''))])]),
         (ascii ''Polo'', PList [
           PDict (dict_display
               [(ascii ''generacia'', PStr (ascii ''Gen 5 (6R/6C)'')),
                (ascii ''roky'', PStr (ascii ''2009-2017'')),
                (ascii ''zakladny_system'', PStr (ascii ''Z'' @ [0xE1] @ ascii ''kladn'' @ [0xFD] @ ascii '' (4-6 repro)'')),
                (ascii ''premiovy_system'', PStr ([0x17D] @ ascii ''iaden zna'' @ [0x10D] @ ascii ''kov'' @ [0xFD] @ ascii '' pr'' @ [0xE9] @ ascii ''miov'' @ [0xFD] @ ascii '' syst'' @ [0xE9] @ ascii ''m''))]),
           PDict (dict_display
               [(ascii ''generacia'', PStr (ascii ''Gen 6 (AW)'')),
                (ascii ''roky'', PStr (ascii ''2017-s'' @ [0xFA, 0x10D] @ ascii ''asnos'' @ [0x165])),
                (ascii ''zakladny_system'', PStr (ascii ''Z'' @ [0xE1] @ ascii ''kladn'' @ [0xFD] @ ascii '' (4-6 repro)'')),
                (ascii ''premiovy_system'', PStr (ascii ''BeatsAudio (6 repro + subwoofer)''))])]),
         (ascii ''Touareg'', PList [
           PDict (dict_display
               [(ascii ''generacia'', PStr (ascii ''Gen 2 (7P)'')),
                (ascii ''roky'', PStr (ascii ''2010-2018'')),
                (ascii ''zakladny_system'', PStr (ascii ''Z'' @ [0xE1] @ ascii ''kladn'' @ [0xFD] @ ascii '' (8 repro)'')),
                (ascii ''premiovy_system'', PStr (ascii ''Dynaudio Confidence (12 repro)''))]),
           PDict (dict_display
               [(ascii ''generacia'', PStr (ascii ''Gen 3 (CR)'')),
                (ascii ''roky'', PStr (ascii ''2018-s'' @ [0xFA, 0x10D] @ ascii ''asnos'' @ [0x165])),
                (ascii ''zakladny_system'', PStr (ascii ''Z'' @ [0xE1] @ ascii ''kladn'' @ [0xFD] @ ascii '' (8 repro)'')),
                (ascii ''premiovy_system'', PStr (ascii ''Dynaudio Consequence (14 repro)''))])])])),
      (ascii ''Audi'', PDict (dict_display [
         (ascii ''A3'', PList [
           PDict (dict_display
               [(ascii ''generacia'', PStr (ascii ''8V'')),
                (ascii ''roky'', PStr (ascii ''2012-2020'')),
                (ascii ''zakladny_system'', PStr (ascii ''Audi Sound System (10 repro)'')),
                (ascii ''premiovy_system'', PStr (ascii ''Bang & Olufsen Sound System (14 repro)''))]),
           PDict (dict_display
               [(ascii ''generacia'', PStr (ascii ''8Y'')),
                (ascii ''roky'', PStr (ascii ''2020-s'' @ [0xFA, 0x10D] @ ascii ''asnos'' @ [0x165])),
                (ascii ''zakladny_system'', PStr (ascii ''Audi Sound System (10 repro)'')),
                (ascii ''premiovy_system'', PStr (ascii ''Bang & Olufsen 3D (15 repro)''))])]),
         (ascii ''A4'', PList [
           PDict (dict_display
               [(ascii ''generacia'', PStr (ascii ''B8 (Facelift)'')),
                (ascii ''roky'', PStr (ascii ''2012-2015'')),
                (ascii ''zakladny_system'', PStr (ascii ''Audi Sound System (10 repro, 180W)'')),
                (ascii ''premiovy_system'', PStr (ascii ''Bang & Olufsen Sound System (14 repro, 505W)''))]),
           PDict (dict_display
               [(ascii ''generacia'', PStr (ascii ''B9'')),
                (ascii ''roky'', PStr (ascii ''2016-s'' @ [0xFA, 0x10D] @ ascii ''asnos'' @ [0x165])),
                (ascii ''zakladny_system'', PStr (ascii ''Audi Sound System (10 repro, 180W)'')),
                (ascii ''premiovy_system'', PStr (ascii ''Bang & Olufsen 3D Sound System (19 repro, 755W)''))])]),
         (ascii ''A6'', PList [
           PDict (dict_display
               [(ascii ''generacia'', PStr (ascii ''C7 (4G)'')),
                (ascii ''roky'', PStr (ascii ''2011-2018'')),
                (ascii ''zakladny_system'', PStr (ascii ''Audi Sound System (10 repro, 180W)'')),
                (ascii ''premiovy_system'', PStr (ascii ''Bose Surround (14 repro) ALEBO Bang & Olufsen Advanced 3D (15 repro)''))]),
           PDict (dict_display
               [(ascii ''generacia'', PStr (ascii ''C8 (4K)'')),
                (ascii ''roky'', PStr (ascii ''2018-s'' @ [0xFA, 0x10D] @ ascii ''asnos'' @ [0x165])),
                (ascii ''zakladny_system'', PStr (ascii ''Audi Sound System (10 repro)'')),
                (ascii ''premiovy_system'', PStr (ascii ''Bang & Olufsen Premium 3D (16 repro) ALEBO Bang & Olufsen Advanced 3D (19 repro)''))])]),
         (ascii ''Q5'', PList [
           PDict (dict_display
               [(ascii ''generacia'', PStr (ascii ''Gen 1 (8R Facelift)'')),
                (ascii ''roky'', PStr (ascii ''2012-2017'')),
                (ascii ''zakladny_system'', PStr (ascii ''Audi Sound System (10 repro)'')),
                (ascii ''premiovy_system'', PStr (ascii ''Bang & Olufsen Sound System (14 repro)''))]),
           PDict (dict_display
               [(ascii ''generacia'', PStr (ascii ''Gen 2 (FY)'')),
                (ascii ''roky'', PStr (ascii ''2017-s'' @ [0xFA, 0x10D] @ ascii ''asnos'' @ [0x165])),
                (ascii ''zakladny_system'', PStr (ascii ''Audi Sound System (10 repro)'')),
                (ascii ''premiovy_system'', PStr (ascii ''Bang & Olufsen 3D (19 repro)''))])]),
         (ascii ''Q7'', PList [
           PDict (dict_display
               [(ascii ''generacia'', PStr (ascii ''Gen 1 (4L Facelift)'')),
                (ascii ''roky'', PStr (ascii ''2009-2015'')),
                (ascii ''zakladny_system'', PStr (ascii ''Z'' @ [0xE1] @ ascii ''kladn'' @ [0xFD] @ ascii '' (8 repro)'')),
                (ascii ''premiovy_system'', PStr (ascii ''Bose Surround (14 repro) ALEBO Bang & Olufsen Advanced (14 repro)''))]),
           PDict (dict_display
               [(ascii ''generacia'', PStr (ascii ''Gen 2 (4M)'')),
                (ascii ''roky'', PStr (ascii ''2015-s'' @ [0xFA, 0x10D] @ ascii ''asnos'' @ [0x165])),
                (ascii ''zakladny_system'', PStr (ascii ''Audi Sound System (10 repro)'')),
                (ascii ''premiovy_system'', PStr (ascii ''Bose 3D (19 repro) ALEBO Bang & Olufsen 3D Advanced (23 repro)''))])])])),
      (ascii ''Seat'', PDict (dict_display [
         (ascii ''Leon'', PList [
           PDict (dict_display
               [(ascii ''generacia'', PStr (ascii ''Gen 3 (5F)'')),
                (ascii ''roky'', PStr (ascii ''2012-2020'')),
                (ascii ''zakladny_system'', PStr (ascii ''Z'' @ [0xE1] @ ascii ''kladn'' @ [0xFD] @ ascii '' (6-8 repro)'')),
                (ascii ''premiovy_system'', PStr (ascii ''Seat Sound System (10 repro)''))]),
           PDict (dict_display
               [(ascii ''generacia'', PStr (ascii ''Gen 4 (KL)'')),
                (ascii ''roky'', PStr (ascii ''2020-s'' @ [0xFA, 0x10D] @ ascii ''asnos'' @ [0x165])),
                (ascii ''zakladny_system'', PStr (ascii ''Z'' @ [0xE1] @ ascii ''kladn'' @ [0xFD] @ ascii '' (7 repro)'')),
                (ascii ''premiovy_system'', PStr (ascii ''BeatsAudio (10 repro, 340W)''))])]),
         (ascii ''Ibiza'', PList [
           PDict (dict_display
               [(ascii ''generacia'', PStr (ascii ''Gen 4 (6J Facelift)'')),
                (ascii ''roky'', PStr (ascii ''2012-2017'')),
                (ascii ''zakladny_system'', PStr (ascii ''Z'' @ [0xE1] @ ascii ''kladn'' @ [0xFD] @ ascii '' (4-6 repro)'')),
                (ascii ''premiovy_system'', PStr ([0x17D] @ ascii ''iaden zna'' @ [0x10D] @ ascii ''kov'' @ [0xFD] @ ascii '' pr'' @ [0xE9] @ ascii ''miov'' @ [0xFD] @ ascii '' syst'' @ [0xE9] @ ascii ''m''))]),
           PDict (dict_display
               [(ascii ''generacia'', PStr (ascii ''Gen 5 (6F)'')),
                (ascii ''roky'', PStr (ascii ''2017-s'' @ [0xFA, 0x10D] @ ascii ''asnos'' @ [0x165])),
                (ascii ''zakladny_system'', PStr (ascii ''Z'' @ [0xE1] @ ascii ''kladn'' @ [0xFD] @ ascii '' (6 repro)'')),
                (ascii ''premiovy_system'', PStr (ascii ''BeatsAudio (7 repro, 300W)''))])]),
         (ascii ''Ateca'', PList [
           PDict (dict_display
               [(ascii ''generacia'', PStr (ascii ''Gen 1'')),
                (ascii ''roky'', PStr (ascii ''2016-s'' @ [0xFA, 0x10D] @ ascii ''asnos'' @ [0x165])),
                (ascii ''zakladny_system'', PStr (ascii ''Z'' @ [0xE1] @ ascii ''kladn'' @ [0xFD] @ ascii '' (8 repro)'')),
                (ascii ''premiovy_system'', PStr (ascii ''Seat Sound System (10 repro)''))])])])),
      (ascii ''Cupra'', PDict (dict_display [
         (ascii ''Formentor'', PList [
           PDict (dict_display
               [(ascii ''generacia'', PStr (ascii ''Gen 1'')),
                (ascii ''roky'', PStr (ascii ''2020-s'' @ [0xFA, 0x10D] @ ascii ''asnos'' @ [0x165])),
                (ascii ''zakladny_system'', PStr (ascii ''Z'' @ [0xE1] @ ascii ''kladn'' @ [0xFD] @ ascii '' (7 repro)'')),
                (ascii ''premiovy_system'', PStr (ascii ''BeatsAudio (10 repro, 340W)''))])]),
         (ascii ''Born'', PList [
           PDict (dict_display
               [(ascii ''generacia'', PStr (ascii ''Gen 1'')),
                (ascii ''roky'', PStr (ascii ''2021-s'' @ [0xFA, 0x10D] @ ascii ''asnos'' @ [0x165])),
                (ascii ''zakladny_system'', PStr (ascii ''Z'' @ [0xE1] @ ascii ''kladn'' @ [0xFD] @ ascii '' (5 repro)'')),
                (ascii ''premiovy_system'', PStr (ascii ''BeatsAudio (10 repro)''))])])])),
      (ascii ''Porsche'', PDict (dict_display [
         (ascii ''911'', PList [
           PDict (dict_display
               [(ascii ''generacia'', PStr (ascii ''991'')),
                (ascii ''roky'', PStr (ascii ''2011-2018'')),
                (ascii ''zakladny_system'', PStr (ascii ''Sound Package Plus (9 repro)'')),
                (ascii ''premiovy_system'', PStr (ascii ''Bose Surround (12 repro) ALEBO Burmester High-End (12 repro)''))]),
           PDict (dict_display
               [(ascii ''generacia'', PStr (ascii ''992'')),
                (ascii ''roky'', PStr (ascii ''2019-s'' @ [0xFA, 0x10D] @ ascii ''asnos'' @ [0x165])),
                (ascii ''zakladny_system'', PStr (ascii ''Sound Package Plus (8 repro)'')),
                (ascii ''premiovy_system'', PStr (ascii ''Bose Surround (12 repro) ALEBO Burmester High-End (13 repro)''))])]),
         (ascii ''Macan'', PList [
           PDict (dict_display
               [(ascii ''generacia'', PStr (ascii ''95B'')),
                (ascii ''roky'', PStr (ascii ''2014-s'' @ [0xFA, 0x10D] @ ascii ''asnos'' @ [0x165])),
                (ascii ''zakladny_system'', PStr (ascii ''Sound Package Plus (10 repro, 150W)'')),
                (ascii ''premiovy_system'', PStr (ascii ''Bose Surround (14 repro, 665W) ALEBO Burmester High-End (16 repro, 1000W+)''))])]),
         (ascii ''Cayenne'', PList [
           PDict (dict_display
               [(ascii ''generacia'', PStr (ascii ''Gen 2 (92A)'')),
                (ascii ''roky'', PStr (ascii ''2010-2017'')),
                (ascii ''zakladny_system'', PStr (ascii ''Sound Package Plus (10 repro)'')),
                (ascii ''premiovy_system'', PStr (ascii ''Bose Surround (14 repro) ALEBO Burmester High-End (16 repro)''))]),
           PDict (dict_display
               [(ascii ''generacia'', PStr (ascii ''Gen 3 (PO536)'')),
                (ascii ''roky'', PStr (ascii ''2017-s'' @ [0xFA, 0x10D] @ ascii ''asnos'' @ [0x165])),
                (ascii ''zakladny_system'', PStr (ascii ''Sound Package Plus (10 repro)'')),
                (ascii ''premiovy_system'', PStr (ascii ''Bose Surround (14 repro) ALEBO Burmester 3D High-End (21 repro)''))])]),
         (ascii ''Panamera'', PList [
           PDict (dict_display
               [(ascii ''generacia'', PStr (ascii ''Gen 1 (970)'')),
                (ascii ''roky'', PStr (ascii ''2009-2016'')),
                (ascii ''zakladny_system'', PStr (ascii ''Sound Package Plus (10 repro)'')),
                (ascii ''premiovy_system'', PStr (ascii ''Bose Surround (14 repro) ALEBO Burmester High-End (16 repro)''))]),
           PDict (dict_display
               [(ascii ''generacia'', PStr (ascii ''Gen 2 (971)'')),
                (ascii ''roky'', PStr (ascii ''2016-s'' @ [0xFA, 0x10D] @ ascii ''asnos'' @ [0x165])),
                (ascii ''zakladny_system'', PStr (ascii ''Hi-Fi (10 repro)'')),
                (ascii ''premiovy_system'', PStr (ascii ''Bose Surround (14 repro) ALEBO Burmester 3D High-End (21 repro)''))])])])),
      (ascii ''Bentley'', PDict (dict_display [
         (ascii ''Continental GT'', PList [
           PDict (dict_display
               [(ascii ''generacia'', PStr (ascii ''Gen 3'')),
                (ascii ''roky'', PStr (ascii ''2018-s'' @ [0xFA, 0x10D] @ ascii ''asnos'' @ [0x165])),
                (ascii ''zakladny_system'', PStr (ascii ''Bentley Signature (10 repro, 650W)'')),
                (ascii ''premiovy_system'', PStr (ascii ''Bang & Olufsen for Bentley (16 repro, 1500W) ALEBO Naim for Bentley (18 repro, 2200W)''))])])]))]"

definition german_premium_items :: "(pystr \<times> pydata) list" where
  "german_premium_items =
    [
      (ascii ''BMW'', PDict (dict_display [
         (ascii ''Rad 1'', PList [
           PDict (dict_display
               [(ascii ''generacia'', PStr (ascii ''F20/F21'')),
                (ascii ''roky'', PStr (ascii ''2011-2019'')),
                (ascii ''zakladny_system'', PStr (ascii ''Z'' @ [0xE1] @ ascii ''kladn'' @ [0xFD] @ ascii '' (6 repro) alebo HiFi (7 repro)'')),
                (ascii ''premiovy_system'', PStr (ascii ''Harman Kardon (12 repro)''))])]),
         (ascii ''Rad 3'', PList [
           PDict (dict_display
               [(ascii ''generacia'', PStr (ascii ''F30/F31'')),
                (ascii ''roky'', PStr (ascii ''2012-2018'')),
                (ascii ''zakladny_system'', PStr (ascii ''Z'' @ [0xE1] @ ascii ''kladn'' @ [0xFD] @ ascii '' (6 repro) alebo HiFi (9 repro, 205W)'')),
                (ascii ''premiovy_system'', PStr (ascii ''Harman Kardon Surround (16 repro, 600W)''))]),
           PDict (dict_display
               [(ascii ''generacia'', PStr (ascii ''G20/G21'')),
                (ascii ''roky'', PStr (ascii ''2019-s'' @ [0xFA, 0x10D] @ ascii ''asnos'' @ [0x165])),
                (ascii ''zakladny_system'', PStr (ascii ''Z'' @ [0xE1] @ ascii ''kladn'' @ [0xFD] @ ascii '' (6 repro) alebo HiFi (10 repro, 205W)'')),
                (ascii ''premiovy_system'', PStr (ascii ''Harman Kardon Surround (16 repro, 464W)''))])]),
         (ascii ''Rad 5'', PList [
           PDict (dict_display
               [(ascii ''generacia'', PStr (ascii ''F10/F11 (Facelift)'')),
                (ascii ''roky'', PStr (ascii ''2013-2016'')),
                (ascii ''zakladny_system'', PStr (ascii ''HiFi (12 repro, 205W)'')),
                (ascii ''premiovy_system'', PStr (ascii ''Harman Kardon (16 repro, 600W) ALEBO Bang & Olufsen High End (16 repro, 1200W)''))]),
           PDict (dict_display
               [(ascii ''generacia'', PStr (ascii ''G30/G31'')),
                (ascii ''roky'', PStr (ascii ''2017-2023'')),
                (ascii ''zakladny_system'', PStr (ascii ''HiFi (12 repro, 205W)'')),
                (ascii ''premiovy_system'', PStr (ascii ''Harman Kardon (16 repro, 600W) ALEBO Bowers & Wilkins Diamond (16 repro, 1400W)''))])]),
         (ascii ''X1'', PList [
           PDict (dict_display
               [(ascii ''generacia'', PStr (ascii ''E84'')),
                (ascii ''roky'', PStr (ascii ''2009-2015'')),
                (ascii ''zakladny_system'', PStr (ascii ''Z'' @ [0xE1] @ ascii ''kladn'' @ [0xFD] @ ascii '' (6 repro) alebo HiFi (8 repro)'')),
                (ascii ''premiovy_system'', PStr (ascii ''Harman Kardon (11 repro)''))]),
           PDict (dict_display
               [(ascii ''generacia'', PStr (ascii ''F48'')),
                (ascii ''roky'', PStr (ascii ''2015-2022'')),
                (ascii ''zakladny_system'', PStr (ascii ''Z'' @ [0xE1] @ ascii ''kladn'' @ [0xFD] @ ascii '' (6 repro) alebo HiFi (7 repro)'')),
                (ascii ''premiovy_system'', PStr (ascii ''Harman Kardon (12 repro)''))])]),
         (ascii ''X3'', PList [
           PDict (dict_display
               [(ascii ''generacia'', PStr (ascii ''F25'')),
                (ascii ''roky'', PStr (ascii ''2010-2017'')),
                (ascii ''zakladny_system'', PStr (ascii ''Z'' @ [0xE1] @ ascii ''kladn'' @ [0xFD] @ ascii '' (6 repro) alebo HiFi (9 repro)'')),
                (ascii ''premiovy_system'', PStr (ascii ''Harman Kardon (16 repro)''))]),
           PDict (dict_display
               [(ascii ''generacia'', PStr (ascii ''G01'')),
                (ascii ''roky'', PStr (ascii ''2017-s'' @ [0xFA, 0x10D] @ ascii ''asnos'' @ [0x165])),
                (ascii ''zakladny_system'', PStr (ascii ''HiFi (12 repro)'')),
                (ascii ''premiovy_system'', PStr (ascii ''Harman Kardon (16 repro)''))])]),
         (ascii ''X5'', PList [
           PDict (dict_display
               [(ascii ''generacia'', PStr (ascii ''F15'')),
                (ascii ''roky'', PStr (ascii ''2013-2018'')),
                (ascii ''zakladny_system'', PStr (ascii ''HiFi (9 repro)'')),
                (ascii ''premiovy_system'', PStr (ascii ''Harman Kardon (16 repro) ALEBO Bang & Olufsen High End (16 repro)''))]),
           PDict (dict_display
               [(ascii ''generacia'', PStr (ascii ''G05'')),
                (ascii ''roky'', PStr (ascii ''2018-s'' @ [0xFA, 0x10D] @ ascii ''asnos'' @ [0x165])),
                (ascii ''zakladny_system'', PStr (ascii ''HiFi (10 repro)'')),
                (ascii ''premiovy_system'', PStr (ascii ''Harman Kardon (16 repro) ALEBO Bowers & Wilkins Diamond (20 repro)''))])])])),
      (ascii ''Mercedes-Benz'', PDict (dict_display [
         (ascii ''A-Class'', PList [
           PDict (dict_display
               [(ascii ''generacia'', PStr (ascii ''W176'')),
                (ascii ''roky'', PStr (ascii ''2012-2018'')),
                (ascii ''zakladny_system'', PStr (ascii ''Audio 20 (6 repro)'')),
                (ascii ''premiovy_system'', PStr (ascii ''Harman Kardon Logic7 (12 repro)''))]),
           PDict (dict_display
               [(ascii ''generacia'', PStr (ascii ''W177'')),
                (ascii ''roky'', PStr (ascii ''2018-s'' @ [0xFA, 0x10D] @ ascii ''asnos'' @ [0x165])),
                (ascii ''zakladny_system'', PStr (ascii ''Z'' @ [0xE1] @ ascii ''kladn'' @ [0xFD] @ ascii '' (6 repro) alebo Advanced (10 repro)'')),
                (ascii ''premiovy_system'', PStr (ascii ''Burmester Surround (12 repro)''))])]),
         (ascii ''C-Class'', PList [
           PDict (dict_display
               [(ascii ''generacia'', PStr (ascii ''W204 (Facelift)'')),
                (ascii ''roky'', PStr (ascii ''2011-2014'')),
                (ascii ''zakladny_system'', PStr (ascii ''Audio 20 (cca 8 repro)'')),
                (ascii ''premiovy_system'', PStr (ascii ''Harman Kardon Logic7 (12 repro)''))]),
           PDict (dict_display
               [(ascii ''generacia'', PStr (ascii ''W205'')),
                (ascii ''roky'', PStr (ascii ''2014-2021'')),
                (ascii ''zakladny_system'', PStr (ascii ''Audio 20 (cca 8 repro)'')),
                (ascii ''premiovy_system'', PStr (ascii ''Burmester Surround (13 repro, 590W)''))]),
           PDict (dict_display
               [(ascii ''generacia'', PStr (ascii ''W206'')),
                (ascii ''roky'', PStr (ascii ''2021-s'' @ [0xFA, 0x10D] @ ascii ''asnos'' @ [0x165])),
                (ascii ''zakladny_system'', PStr (ascii ''Z'' @ [0xE1] @ ascii ''kladn'' @ [0xFD] @ ascii '' syst'' @ [0xE9] @ ascii ''m'')),
                (ascii ''premiovy_system'', PStr (ascii ''Burmester 3D Surround (15 repro, 710W)''))])]),
         (ascii ''E-Class'', PList [
           PDict (dict_display
               [(ascii ''generacia'', PStr (ascii ''W212 (Facelift)'')),
                (ascii ''roky'', PStr (ascii ''2013-2016'')),
                (ascii ''zakladny_system'', PStr (ascii ''Audio 20'')),
                (ascii ''premiovy_system'', PStr (ascii ''Harman Kardon Logic7 (14 repro)''))]),
           PDict (dict_display
               [(ascii ''generacia'', PStr (ascii ''W213'')),
                (ascii ''roky'', PStr (ascii ''2016-2023'')),
                (ascii ''zakladny_system'', PStr (ascii ''Z'' @ [0xE1] @ ascii ''kladn'' @ [0xFD] @ ascii '' (8 repro)'')),
                (ascii ''premiovy_system'', PStr (ascii ''Burmester Surround (13 repro) ALEBO Burmester High-End 3D (23 repro)''))])]),
         (ascii ''S-Class'', PList [
           PDict (dict_display
               [(ascii ''generacia'', PStr (ascii ''W222'')),
                (ascii ''roky'', PStr (ascii ''2013-2020'')),
                (ascii ''zakladny_system'', PStr (ascii ''Z'' @ [0xE1] @ ascii ''kladn'' @ [0xFD] @ ascii '' (10 repro)'')),
                (ascii ''premiovy_system'', PStr (ascii ''Burmester Surround (13 repro) ALEBO Burmester High-End 3D (24 repro)''))]),
           PDict (dict_display
               [(ascii ''generacia'', PStr (ascii ''W223'')),
                (ascii ''roky'', PStr (ascii ''2020-s'' @ [0xFA, 0x10D] @ ascii ''asnos'' @ [0x165])),
                (ascii ''zakladny_system'', PStr (ascii ''Burmester 3D Surround (15 repro)'')),
                (ascii ''premiovy_system'', PStr (ascii ''Burmester High-End 4D (31 repro)''))])]),
         (ascii ''GLC-Class'', PList [
           PDict (dict_display
               [(ascii ''generacia'', PStr (ascii ''X253'')),
                (ascii ''roky'', PStr (ascii ''2015-2022'')),
                (ascii ''zakladny_system'', PStr (ascii ''Audio 20 (8 repro)'')),
                (ascii ''premiovy_system'', PStr (ascii ''Burmester Surround (13 repro, 590W)''))])]),
         (ascii ''GLE-Class'', PList [
           PDict (dict_display
               [(ascii ''generacia'', PStr (ascii ''W166 (ML-Class)'')),
                (ascii ''roky'', PStr (ascii ''2011-2018'')),
                (ascii ''zakladny_system'', PStr (ascii ''Audio 20'')),
                (ascii ''premiovy_system'', PStr (ascii ''Harman Kardon Logic7 (14 repro)''))]),
           PDict (dict_display
               [(ascii ''generacia'', PStr (ascii ''V167'')),
                (ascii ''roky'', PStr (ascii ''2019-s'' @ [0xFA, 0x10D] @ ascii ''asnos'' @ [0x165])),
                (ascii ''zakladny_system'', PStr (ascii ''Advanced (9 repro)'')),
                (ascii ''premiovy_system'', PStr (ascii ''Burmester Surround (13 repro)''))])])])),
      (ascii ''Toyota'', PDict (dict_display [
         (ascii ''Yaris'', PList [
           PDict (dict_display
               [(ascii ''generacia'', PStr (ascii ''XP130 (Gen 3)'')),
                (ascii ''roky'', PStr (ascii ''2011-2019'')),
                (ascii ''zakladny_system'', PStr (ascii ''Toyota Touch (4-6 repro)'')),
                (ascii ''premiovy_system'', PStr ([0x17D] @ ascii ''iaden zna'' @ [0x10D] @ ascii ''kov'' @ [0xFD] @ ascii '' pr'' @ [0xE9] @ ascii ''miov'' @ [0xFD] @ ascii '' syst'' @ [0xE9] @ ascii ''m''))]),
           PDict (dict_display
               [(ascii ''generacia'', PStr (ascii ''XP210 (Gen 4)'')),
                (ascii ''roky'', PStr (ascii ''2020-s'' @ [0xFA, 0x10D] @ ascii ''asnos'' @ [0x165])),
                (ascii ''zakladny_system'', PStr (ascii ''Z'' @ [0xE1] @ ascii ''kladn'' @ [0xFD] @ ascii '' (6 repro)'')),
                (ascii ''premiovy_system'', PStr (ascii ''JBL (8 repro)''))])]),
         (ascii ''Corolla'', PList [
           PDict (dict_display
               [(ascii ''generacia'', PStr (ascii ''E170 (Gen 11)'')),
                (ascii ''roky'', PStr (ascii ''2013-2018'')),
                (ascii ''zakladny_system'', PStr (ascii ''Toyota Touch 2 (6 repro)'')),
                (ascii ''premiovy_system'', PStr ([0x17D] @ ascii ''iaden zna'' @ [0x10D] @ ascii ''kov'' @ [0xFD] @ ascii '' pr'' @ [0xE9] @ ascii ''miov'' @ [0xFD] @ ascii '' syst'' @ [0xE9] @ ascii ''m (v E'' @ [0xDA] @ ascii '')''))]),
           PDict (dict_display
               [(ascii ''generacia'', PStr (ascii ''E210 (Gen 12)'')),
                (ascii ''roky'', PStr (ascii ''2018-s'' @ [0xFA, 0x10D] @ ascii ''asnos'' @ [0x165])),
                (ascii ''zakladny_system'', PStr (ascii ''Z'' @ [0xE1] @ ascii ''kladn'' @ [0xFD] @ ascii '' (6 repro)'')),
                (ascii ''premiovy_system'', PStr (ascii ''JBL (8 repro)''))])]),
         (ascii ''C-HR'', PList [
           PDict (dict_display
               [(ascii ''generacia'', PStr (ascii ''Gen 1'')),
                (ascii ''roky'', PStr (ascii ''2016-2023'')),
                (ascii ''zakladny_system'', PStr (ascii ''Z'' @ [0xE1] @ ascii ''kladn'' @ [0xFD] @ ascii '' (6 repro)'')),
                (ascii ''premiovy_system'', PStr (ascii ''JBL (9 repro)''))])]),
         (ascii ''RAV4'', PList [
           PDict (dict_display
               [(ascii ''generacia'', PStr (ascii ''XA40 (Gen 4)'')),
                (ascii ''roky'', PStr (ascii ''2013-2018'')),
                (ascii ''zakladny_system'', PStr (ascii ''Toyota Touch 2 (6 repro)'')),
                (ascii ''premiovy_system'', PStr (ascii ''JBL GreenEdge (11 repro)''))]),
           PDict (dict_display
               [(ascii ''generacia'', PStr (ascii ''XA50 (Gen 5)'')),
                (ascii ''roky'', PStr (ascii ''2019-s'' @ [0xFA, 0x10D] @ ascii ''asnos'' @ [0x165])),
                (ascii ''zakladny_system'', PStr (ascii ''Z'' @ [0xE1] @ ascii ''kladn'' @ [0xFD] @ ascii '' (6 repro)'')),
                (ascii ''premiovy_system'', PStr (ascii ''JBL (11 repro)''))])])])),
      (ascii ''Lexus'', PDict (dict_display [
         (ascii ''IS'', PList [
           PDict (dict_display
               [(ascii ''generacia'', PStr (ascii ''XE30'')),
                (ascii ''roky'', PStr (ascii ''2013-s'' @ [0xFA, 0x10D] @ ascii ''asnos'' @ [0x165])),
                (ascii ''zakladny_system'', PStr (ascii ''Lexus Premium (Pioneer) (10 repro)'')),
                (ascii ''premiovy_system'', PStr (ascii ''Mark Levinson Premium Surround (15 repro, 835W)''))])]),
         (ascii ''NX'', PList [
           PDict (dict_display
               [(ascii ''generacia'', PStr (ascii ''AZ10 (Gen 1)'')),
                (ascii ''roky'', PStr (ascii ''2014-2021'')),
                (ascii ''zakladny_system'', PStr (ascii ''Lexus Premium (Pioneer) (10 repro)'')),
                (ascii ''premiovy_system'', PStr (ascii ''Mark Levinson (14 repro)''))]),
           PDict (dict_display
               [(ascii ''generacia'', PStr (ascii ''AZ20 (Gen 2)'')),
                (ascii ''roky'', PStr (ascii ''2021-s'' @ [0xFA, 0x10D] @ ascii ''asnos'' @ [0x165])),
                (ascii ''zakladny_system'', PStr (ascii ''Lexus Premium (10 repro)'')),
                (ascii ''premiovy_system'', PStr (ascii ''Mark Levinson (17 repro)''))])]),
         (ascii ''RX'', PList [
           PDict (dict_display
               [(ascii ''generacia'', PStr (ascii ''AL10 (Gen 3 facelift)'')),
                (ascii ''roky'', PStr (ascii ''2012-2015'')),
                (ascii ''zakladny_system'', PStr (ascii ''Lexus Premium (9 repro)'')),
                (ascii ''premiovy_system'', PStr (ascii ''Mark Levinson (15 repro)''))]),
           PDict (dict_display
               [(ascii ''generacia'', PStr (ascii ''AL20 (Gen 4)'')),
                (ascii ''roky'', PStr (ascii ''2015-2022'')),
                (ascii ''zakladny_system'', PStr (ascii ''Lexus Premium (9 alebo 12 repro)'')),
                (ascii ''premiovy_system'', PStr (ascii ''Mark Levinson (15 repro)''))])])])),
      (ascii ''Honda'', PDict (dict_display [
         (ascii ''Civic'', PList [
           PDict (dict_display
               [(ascii ''generacia'', PStr (ascii ''Gen 9 (FK)'')),
                (ascii ''roky'', PStr (ascii ''2012-2017'')),
                (ascii ''zakladny_system'', PStr (ascii ''Z'' @ [0xE1] @ ascii ''kladn'' @ [0xFD] @ ascii '' (4-6 repro)'')),
                (ascii ''premiovy_system'', PStr (ascii ''Honda Premium Audio (8 repro)''))]),
           PDict (dict_display
               [(ascii ''generacia'', PStr (ascii ''Gen 10 (FK)'')),
                (ascii ''roky'', PStr (ascii ''2017-2022'')),
                (ascii ''zakladny_system'', PStr (ascii ''Z'' @ [0xE1] @ ascii ''kladn'' @ [0xFD] @ ascii '' (8 repro)'')),
                (ascii ''premiovy_system'', PStr (ascii ''Honda Premium Audio (11 repro)''))]),
           PDict (dict_display
               [(ascii ''generacia'', PStr (ascii ''Gen 11 (FE/FL)'')),
                (ascii ''roky'', PStr (ascii ''2022-s'' @ [0xFA, 0x10D] @ ascii ''asnos'' @ [0x165])),
                (ascii ''zakladny_system'', PStr (ascii ''Z'' @ [0xE1] @ ascii ''kladn'' @ [0xFD] @ ascii '' (8 repro)'')),
                (ascii ''premiovy_system'', PStr (ascii ''Bose Centerpoint (12 repro)''))])]),
         (ascii ''CR-V'', PList [
           PDict (dict_display
               [(ascii ''generacia'', PStr (ascii ''Gen 4 (RM)'')),
                (ascii ''roky'', PStr (ascii ''2012-2018'')),
                (ascii ''zakladny_system'', PStr (ascii ''Z'' @ [0xE1] @ ascii ''kladn'' @ [0xFD] @ ascii '' (6 repro)'')),
                (ascii ''premiovy_system'', PStr (ascii ''Premium Audio System (7 repro)''))]),
           PDict (dict_display
               [(ascii ''generacia'', PStr (ascii ''Gen 5 (RW)'')),
                (ascii ''roky'', PStr (ascii ''2018-2023'')),
                (ascii ''zakladny_system'', PStr (ascii ''Z'' @ [0xE1] @ ascii ''kladn'' @ [0xFD] @ ascii '' (8 repro)'')),
                (ascii ''premiovy_system'', PStr (ascii ''Honda Premium Audio (9 repro)''))])])])),
      (ascii ''Nissan'', PDict (dict_display [
         (ascii ''Juke'', PList [
           PDict (dict_display
               [(ascii ''generacia'', PStr (ascii ''F16 (Gen 2)'')),
                (ascii ''roky'', PStr (ascii ''2019-s'' @ [0xFA, 0x10D] @ ascii ''asnos'' @ [0x165])),
                (ascii ''zakladny_system'', PStr (ascii ''Z'' @ [0xE1] @ ascii ''kladn'' @ [0xFD] @ ascii '' (4 alebo 6 repro)'')),
                (ascii ''premiovy_system'', PStr (ascii ''Bose Personal Plus (8 repro)''))])]),
         (ascii ''Qashqai'', PList [
           PDict (dict_display
               [(ascii ''generacia'', PStr (ascii ''J11 (Gen 2)'')),
                (ascii ''roky'', PStr (ascii ''2013-2021'')),
                (ascii ''zakladny_system'', PStr (ascii ''Z'' @ [0xE1] @ ascii ''kladn'' @ [0xFD] @ ascii '' (4 alebo 6 repro)'')),
                (ascii ''premiovy_system'', PStr (ascii ''Bose (8 repro)''))]),
           PDict (dict_display
               [(ascii ''generacia'', PStr (ascii ''J12 (Gen 3)'')),
                (ascii ''roky'', PStr (ascii ''2021-s'' @ [0xFA, 0x10D] @ ascii ''asnos'' @ [0x165])),
                (ascii ''zakladny_system'', PStr (ascii ''Z'' @ [0xE1] @ ascii ''kladn'' @ [0xFD] @ ascii '' (6 repro)'')),
                (ascii ''premiovy_system'', PStr (ascii ''Bose Premium (10 repro)''))])]),
         (ascii ''X-Trail'', PList [
           PDict (dict_display
               [(ascii ''generacia'', PStr (ascii ''T32 (Gen 3)'')),
                (ascii ''roky'', PStr (ascii ''2013-2021'')),
                (ascii ''zakladny_system'', PStr (ascii ''Z'' @ [0xE1] @ ascii ''kladn'' @ [0xFD] @ ascii '' (6 repro)'')),
                (ascii ''premiovy_system'', PStr (ascii ''Bose (8 repro)''))])])])),
      (ascii ''Mazda'', PDict (dict_display [
         (ascii ''Mazda 3'', PList [
           PDict (dict_display
               [(ascii ''generacia'', PStr (ascii ''BM/BN (Gen 3)'')),
                (ascii ''roky'', PStr (ascii ''2013-2018'')),
                (ascii ''zakladny_system'', PStr (ascii ''Z'' @ [0xE1] @ ascii ''kladn'' @ [0xFD] @ ascii '' (4 alebo 6 repro)'')),
                (ascii ''premiovy_system'', PStr (ascii ''Bose Centerpoint 2 (9 repro)''))]),
           PDict (dict_display
               [(ascii ''generacia'', PStr (ascii ''BP (Gen 4)'')),
                (ascii ''roky'', PStr (ascii ''2019-s'' @ [0xFA, 0x10D] @ ascii ''asnos'' @ [0x165])),
                (ascii ''zakladny_system'', PStr (ascii ''Mazda Harmonic Acoustics (8 repro)'')),
                (ascii ''premiovy_system'', PStr (ascii ''Bose (12 repro)''))])]),
         (ascii ''Mazda 6'', PList [
           PDict (dict_display
               [(ascii ''generacia'', PStr (ascii ''GJ/GL (Gen 3)'')),
                (ascii ''roky'', PStr (ascii ''2012-s'' @ [0xFA, 0x10D] @ ascii ''asnos'' @ [0x165])),
                (ascii ''zakladny_system'', PStr (ascii ''Z'' @ [0xE1] @ ascii ''kladn'' @ [0xFD] @ ascii '' (4 alebo 6 repro)'')),
                (ascii ''premiovy_system'', PStr (ascii ''Bose Centerpoint 2 (11 repro)''))])]),
         (ascii ''CX-5'', PList [
           PDict (dict_display
               [(ascii ''generacia'', PStr (ascii ''KE (Gen 1)'')),
                (ascii ''roky'', PStr (ascii ''2012-2017'')),
                (ascii ''zakladny_system'', PStr (ascii ''Z'' @ [0xE1] @ ascii ''kladn'' @ [0xFD] @ ascii '' (6 repro)'')),
                (ascii ''premiovy_system'', PStr (ascii ''Bose (9 repro)''))]),
           PDict (dict_display
               [(ascii ''generacia'', PStr (ascii ''KF (Gen 2)'')),
                (ascii ''roky'', PStr (ascii ''2017-s'' @ [0xFA, 0x10D] @ ascii ''asnos'' @ [0x165])),
                (ascii ''zakladny_system'', PStr (ascii ''Z'' @ [0xE1] @ ascii ''kladn'' @ [0xFD] @ ascii '' (6 repro)'')),
                (ascii ''premiovy_system'', PStr (ascii ''Bose (10 repro)''))])])])),
      (ascii ''Subaru'', PDict (dict_display [
         (ascii ''Outback'', PList [
           PDict (dict_display
               [(ascii ''generacia'', PStr (ascii ''BS (Gen 5)'')),
                (ascii ''roky'', PStr (ascii ''2014-2019'')),
                (ascii ''zakladny_system'', PStr (ascii ''Z'' @ [0xE1] @ ascii ''kladn'' @ [0xFD] @ ascii '' (6 repro)'')),
                (ascii ''premiovy_system'', PStr (ascii ''Harman Kardon (12 repro)''))])]),
         (ascii ''Forester'', PList [
           PDict (dict_display
               [(ascii ''generacia'', PStr (ascii ''SJ (Gen 4)'')),
                (ascii ''roky'', PStr (ascii ''2012-2018'')),
                (ascii ''zakladny_system'', PStr (ascii ''Z'' @ [0xE1] @ ascii ''kladn'' @ [0xFD] @ ascii '' (4 alebo 6 repro)'')),
                (ascii ''premiovy_system'', PStr (ascii ''Harman Kardon (8 repro)''))])])])),
      (ascii ''Mitsubishi'', PDict (dict_display [
         (ascii ''ASX'', PList [
           PDict (dict_display
               [(ascii ''generacia'', PStr (ascii ''Gen 1 (viacero faceliftov)'')),
                (ascii ''roky'', PStr (ascii ''2010-s'' @ [0xFA, 0x10D] @ ascii ''asnos'' @ [0x165])),
                (ascii ''zakladny_system'', PStr (ascii ''Z'' @ [0xE1] @ ascii ''kladn'' @ [0xFD] @ ascii '' (4 alebo 6 repro)'')),
                (ascii ''premiovy_system'', PStr (ascii ''Rockford Fosgate (9 repro, 710W)''))])]),
         (ascii ''Outlander'', PList [
           PDict (dict_display
               [(ascii ''generacia'', PStr (ascii ''Gen 3 (PHEV v E'' @ [0xDA] @ ascii '')'')),
                (ascii ''roky'', PStr (ascii ''2012-2021'')),
                (ascii ''zakladny_system'', PStr (ascii ''Z'' @ [0xE1] @ ascii ''kladn'' @ [0xFD] @ ascii '' (6 repro)'')),
                (ascii ''premiovy_system'', PStr (ascii ''Rockford Fosgate (9 repro, 710W)''))])])])),
      (ascii ''Suzuki'', PDict (dict_display [
         (ascii ''Vitara'', PList [
           PDict (dict_display
               [(ascii ''generacia'', PStr (ascii ''Gen 4'')),
                (ascii ''roky'', PStr (ascii ''2015-s'' @ [0xFA, 0x10D] @ ascii ''asnos'' @ [0x165])),
                (ascii ''zakladny_system'', PStr (ascii ''Z'' @ [0xE1] @ ascii ''kladn'' @ [0xFD] @ ascii '' (4 repro)'')),
                (ascii ''premiovy_system'', PStr (ascii ''Roz'' @ [0x161, 0xED] @ ascii ''ren'' @ [0xFD] @ ascii '' syst'' @ [0xE9] @ ascii ''m (6 repro, 2x tweeter)''))])]),
         (ascii ''S-Cross'', PList [
           PDict (dict_display
               [(ascii ''generacia'', PStr (ascii ''Gen 2'')),
                (ascii ''roky'', PStr (ascii ''2013-2021'')),
                (ascii ''zakladny_system'', PStr (ascii ''Z'' @ [0xE1] @ ascii ''kladn'' @ [0xFD] @ ascii '' (4 repro)'')),
                (ascii ''premiovy_system'', PStr (ascii ''Roz'' @ [0x161, 0xED] @ ascii ''ren'' @ [0xFD] @ ascii '' syst'' @ [0xE9] @ ascii ''m (6 repro)''))])])])),
      (ascii ''Hyundai'', PDict (dict_display [
         (ascii ''i20'', PList [
           PDict (dict_display
               [(ascii ''generacia'', PStr (ascii ''Gen 2 (GB)'')),
                (ascii ''roky'', PStr (ascii ''2014-2020'')),
                (ascii ''zakladny_system'', PStr (ascii ''Z'' @ [0xE1] @ ascii ''kladn'' @ [0xFD] @ ascii '' (4-6 repro)'')),
                (ascii ''premiovy_system'', PStr ([0x17D] @ ascii ''iaden zna'' @ [0x10D] @ ascii ''kov'' @ [0xFD] @ ascii '' pr'' @ [0xE9] @ ascii ''miov'' @ [0xFD] @ ascii '' syst'' @ [0xE9] @ ascii ''m''))]),
           PDict (dict_display
               [(ascii ''generacia'', PStr (ascii ''Gen 3 (BC3)'')),
                (ascii ''roky'', PStr (ascii ''2020-s'' @ [0xFA, 0x10D] @ ascii ''asnos'' @ [0x165])),
                (ascii ''zakladny_system'', PStr (ascii ''Z'' @ [0xE1] @ ascii ''kladn'' @ [0xFD] @ ascii '' (6 repro)'')),
                (ascii ''premiovy_system'', PStr (ascii ''Bose Premium Sound (8 repro)''))])]),
         (ascii ''i30'', PList [
           PDict (dict_display
               [(ascii ''generacia'', PStr (ascii ''GD (Gen 2)'')),
                (ascii ''roky'', PStr (ascii ''2012-2017'')),
                (ascii ''zakladny_system'', PStr (ascii ''Z'' @ [0xE1] @ ascii ''kladn'' @ [0xFD] @ ascii '' (4 alebo 6 repro)'')),
                (ascii ''premiovy_system'', PStr (ascii ''Pr'' @ [0xED] @ ascii ''platkov'' @ [0xFD] @ ascii '' syst'' @ [0xE9] @ ascii ''m (6 repro + zosil'' @ [0x148] @ ascii ''ova'' @ [0x10D] @ ascii '')''))]),
           PDict (dict_display
               [(ascii ''generacia'', PStr (ascii ''PD (Gen 3)'')),
                (ascii ''roky'', PStr (ascii ''2017-s'' @ [0xFA, 0x10D] @ ascii ''asnos'' @ [0x165])),
                (ascii ''zakladny_system'', PStr (ascii ''Z'' @ [0xE1] @ ascii ''kladn'' @ [0xFD] @ ascii '' (4 alebo 6 repro)'')),
                (ascii ''premiovy_system'', PStr ([0x17D] @ ascii ''iaden zna'' @ [0x10D] @ ascii ''kov'' @ [0xFD] @ ascii '' pr'' @ [0xE9] @ ascii ''miov'' @ [0xFD] @ ascii '' syst'' @ [0xE9] @ ascii ''m (na v'' @ [0xE4, 0x10D, 0x161] @ ascii ''ine E'' @ [0xDA] @ ascii '' trhov)''))])]),
         (ascii ''Tucson'', PList [
           PDict (dict_display
               [(ascii ''generacia'', PStr (ascii ''ix35 (Gen 2)'')),
                (ascii ''roky'', PStr (ascii ''2009-2015'')),
                (ascii ''zakladny_system'', PStr (ascii ''Z'' @ [0xE1] @ ascii ''kladn'' @ [0xFD] @ ascii '' (6 repro)'')),
                (ascii ''premiovy_system'', PStr (ascii ''Infinity Premium Sound (7 repro)''))]),
           PDict (dict_display
               [(ascii ''generacia'', PStr (ascii ''TL (Gen 3)'')),
                (ascii ''roky'', PStr (ascii ''2015-2020'')),
                (ascii ''zakladny_system'', PStr (ascii ''Z'' @ [0xE1] @ ascii ''kladn'' @ [0xFD] @ ascii '' (6 repro)'')),
                (ascii ''premiovy_system'', PStr (ascii ''Infinity Premium Sound (8 repro)''))]),
           PDict (dict_display
               [(ascii ''generacia'', PStr (ascii ''NX4 (Gen 4)'')),
                (ascii ''roky'', PStr (ascii ''2020-s'' @ [0xFA, 0x10D] @ ascii ''asnos'' @ [0x165])),
                (ascii ''zakladny_system'', PStr (ascii ''Z'' @ [0xE1] @ ascii ''kladn'' @ [0xFD] @ ascii '' (6 repro)'')),
                (ascii ''premiovy_system'', PStr (ascii ''Krell Premium Sound (8 repro)''))])]),
         (ascii ''Santa Fe'', PList [
           PDict (dict_display
               [(ascii ''generacia'', PStr (ascii ''Gen 3 (DM)'')),
                (ascii ''roky'', PStr (ascii ''2012-2018'')),
                (ascii ''zakladny_system'', PStr (ascii ''Z'' @ [0xE1] @ ascii ''kladn'' @ [0xFD] @ ascii '' (6 repro)'')),
                (ascii ''premiovy_system'', PStr (ascii ''Infinity Premium Sound (10 repro)''))]),
           PDict (dict_display
               [(ascii ''generacia'', PStr (ascii ''Gen 4 (TM)'')),
                (ascii ''roky'', PStr (ascii ''2018-s'' @ [0xFA, 0x10D] @ ascii ''asnos'' @ [0x165])),
                (ascii ''zakladny_system'', PStr (ascii ''Z'' @ [0xE1] @ ascii ''kladn'' @ [0xFD] @ ascii '' (6 repro)'')),
                (ascii ''premiovy_system'', PStr (ascii ''Krell Premium Sound (10 repro)''))])])])),
      (ascii ''Kia'', PDict (dict_display [
         (ascii ''Ceed'', PList [
           PDict (dict_display
               [(ascii ''generacia'', PStr (ascii ''JD (Gen 2)'')),
                (ascii ''roky'', PStr (ascii ''2012-2018'')),
                (ascii ''zakladny_system'', PStr (ascii ''Z'' @ [0xE1] @ ascii ''kladn'' @ [0xFD] @ ascii '' (6 repro)'')),
                (ascii ''premiovy_system'', PStr (ascii ''Infinity Premium Sound (7 repro, na niektor'' @ [0xFD] @ ascii ''ch trhoch)''))]),
           PDict (dict_display
               [(ascii ''generacia'', PStr (ascii ''CD (Gen 3)'')),
                (ascii ''roky'', PStr (ascii ''2018-s'' @ [0xFA, 0x10D] @ ascii ''asnos'' @ [0x165])),
                (ascii ''zakladny_system'', PStr (ascii ''Z'' @ [0xE1] @ ascii ''kladn'' @ [0xFD] @ ascii '' (6 repro)'')),
                (ascii ''premiovy_system'', PStr (ascii ''JBL Premium Sound (8 repro)''))])]),
         (ascii ''Sportage'', PList [
           PDict (dict_display
               [(ascii ''generacia'', PStr (ascii ''SL (Gen 3)'')),
                (ascii ''roky'', PStr (ascii ''2010-2015'')),
                (ascii ''zakladny_system'', PStr (ascii ''Z'' @ [0xE1] @ ascii ''kladn'' @ [0xFD] @ ascii '' (6 repro)'')),
                (ascii ''premiovy_system'', PStr (ascii ''Infinity Premium Sound (7 repro)''))]),
           PDict (dict_display
               [(ascii ''generacia'', PStr (ascii ''QL (Gen 4)'')),
                (ascii ''roky'', PStr (ascii ''2016-2021'')),
                (ascii ''zakladny_system'', PStr (ascii ''Z'' @ [0xE1] @ ascii ''kladn'' @ [0xFD] @ ascii '' (6 repro)'')),
                (ascii ''premiovy_system'', PStr (ascii ''JBL Premium Sound (8 repro)''))]),
           PDict (dict_display
               [(ascii ''generacia'', PStr (ascii ''NQ5 (Gen 5)'')),
                (ascii ''roky'', PStr (ascii ''2021-s'' @ [0xFA, 0x10D] @ ascii ''asnos'' @ [0x165])),
                (ascii ''zakladny_system'', PStr (ascii ''Z'' @ [0xE1] @ ascii ''kladn'' @ [0xFD] @ ascii '' (6 repro)'')),
                (ascii ''premiovy_system'', PStr (ascii ''Harman Kardon Premium Sound (8 repro)''))])]),
         (ascii ''Sorento'', PList [
           PDict (dict_display
               [(ascii ''generacia'', PStr (ascii ''Gen 2 (XM Facelift)'')),
                (ascii ''roky'', PStr (ascii ''2012-2014'')),
                (ascii ''zakladny_system'', PStr (ascii ''Z'' @ [0xE1] @ ascii ''kladn'' @ [0xFD] @ ascii '' (6 repro)'')),
                (ascii ''premiovy_system'', PStr (ascii ''Infinity Premium Sound (10 repro)''))]),
           PDict (dict_display
               [(ascii ''generacia'', PStr (ascii ''Gen 3 (UM)'')),
                (ascii ''roky'', PStr (ascii ''2015-2020'')),
                (ascii ''zakladny_system'', PStr (ascii ''Z'' @ [0xE1] @ ascii ''kladn'' @ [0xFD] @ ascii '' (6 repro)'')),
                (ascii ''premiovy_system'', PStr (ascii ''Infinity Premium Sound (10 repro)''))]),
           PDict (dict_display
               [(ascii ''generacia'', PStr (ascii ''Gen 4 (MQ4)'')),
                (ascii ''roky'', PStr (ascii ''2020-s'' @ [0xFA, 0x10D] @ ascii ''asnos'' @ [0x165])),
                (ascii ''zakladny_system'', PStr (ascii ''Z'' @ [0xE1] @ ascii ''kladn'' @ [0xFD] @ ascii '' (6 repro)'')),
                (ascii ''premiovy_system'', PStr (ascii ''Bose Premium Sound (12 repro)''))])])])),
      (ascii ''Genesis'', PDict (dict_display [
         (ascii ''G70'', PList [
           PDict (dict_display
               [(ascii ''generacia'', PStr (ascii ''Gen 1'')),
                (ascii ''roky'', PStr (ascii ''2017-s'' @ [0xFA, 0x10D] @ ascii ''asnos'' @ [0x165] @ ascii '' (vstup do E'' @ [0xDA] @ ascii '' cca 2021)'')),
                (ascii ''zakladny_system'', PStr (ascii ''Z'' @ [0xE1] @ ascii ''kladn'' @ [0xFD] @ ascii '' (9 repro)'')),
                (ascii ''premiovy_system'', PStr (ascii ''Lexicon (15 repro)''))])]),
         (ascii ''GV80'', PList [
           PDict (dict_display
               [(ascii ''generacia'', PStr (ascii ''Gen 1'')),
                (ascii ''roky'', PStr (ascii ''2020-s'' @ [0xFA, 0x10D] @ ascii ''asnos'' @ [0x165] @ ascii '' (vstup do E'' @ [0xDA] @ ascii '' cca 2021)'')),
                (ascii ''zakladny_system'', PStr (ascii ''Genesis Premium (12 repro)'')),
                (ascii ''premiovy_system'', PStr (ascii ''Lexicon (21 repro)''))])])]))]"

definition fragment_326_items :: "(pystr \<times> pydata) list" where
  "fragment_326_items =
    [
      (ascii ''Peugeot'', PDict (dict_display [
         (ascii ''208'', PList [
           PDict (dict_display
               [(ascii ''generacia'', PStr (ascii ''Gen 1'')),
                (ascii ''roky'', PStr (ascii ''2012-2019'')),
                (ascii ''zakladny_system'', PStr (ascii ''Z'' @ [0xE1] @ ascii ''kladn'' @ [0xFD] @ ascii '' (4-6 repro)'')),
                (ascii ''premiovy_system'', PStr (ascii ''JBL Hi-Fi (8 repro)''))]),
           PDict (dict_display
               [(ascii ''generacia'', PStr (ascii ''Gen 2'')),
                (ascii ''roky'', PStr (ascii ''2019-s'' @ [0xFA, 0x10D] @ ascii ''asnos'' @ [0x165])),
                (ascii ''zakladny_system'', PStr (ascii ''Z'' @ [0xE1] @ ascii ''kladn'' @ [0xFD] @ ascii '' (6 repro)'')),
                (ascii ''premiovy_system'', PStr (ascii ''Focal (10 repro) - (menej '' @ [0x10D] @ ascii ''ast'' @ [0xE9] @ ascii '')''))])]),
         (ascii ''308'', PList [
           PDict (dict_display
               [(ascii ''generacia'', PStr (ascii ''T9 (Gen 2)'')),
                (ascii ''roky'', PStr (ascii ''2013-2021'')),
                (ascii ''zakladny_system'', PStr (ascii ''Z'' @ [0xE1] @ ascii ''kladn'' @ [0xFD] @ ascii '' (6 repro)'')),
                (ascii ''premiovy_system'', PStr (ascii ''Denon Hi-Fi (9 repro)''))]),
           PDict (dict_display
               [(ascii ''generacia'', PStr (ascii ''P5 (Gen 3)'')),
                (ascii ''roky'', PStr (ascii ''2021-s'' @ [0xFA, 0x10D] @ ascii ''asnos'' @ [0x165])),
                (ascii ''zakladny_system'', PStr (ascii ''Z'' @ [0xE1] @ ascii ''kladn'' @ [0xFD] @ ascii '' (6 repro)'')),
                (ascii ''premiovy_system'', PStr (ascii ''Focal Premium Hi-Fi (10 repro)''))])]),
         (ascii ''3008'', PList [
           PDict (dict_display
               [(ascii ''generacia'', PStr (ascii ''Gen 1'')),
                (ascii ''roky'', PStr (ascii ''2008-2016'')),
                (ascii ''zakladny_system'', PStr (ascii ''Z'' @ [0xE1] @ ascii ''kladn'' @ [0xFD] @ ascii '' (6 repro)'')),
                (ascii ''premiovy_system'', PStr (ascii ''JBL Hi-Fi (8 repro)''))]),
           PDict (dict_display
               [(ascii ''generacia'', PStr (ascii ''Gen 2'')),
                (ascii ''roky'', PStr (ascii ''2016-s'' @ [0xFA, 0x10D] @ ascii ''asnos'' @ [0x165])),
                (ascii ''zakladny_system'', PStr (ascii ''Z'' @ [0xE1] @ ascii ''kladn'' @ [0xFD] @ ascii '' (8 repro)'')),
                (ascii ''premiovy_system'', PStr (ascii ''Focal Premium Hi-Fi (10 repro)''))])]),
         (ascii ''508'', PList [
           PDict (dict_display
               [(ascii ''generacia'', PStr (ascii ''Gen 1'')),
                (ascii ''roky'', PStr (ascii ''2011-2017'')),
                (ascii ''zakladny_system'', PStr (ascii ''Z'' @ [0xE1] @ ascii ''kladn'' @ [0xFD] @ ascii '' (8 repro)'')),
                (ascii ''premiovy_system'', PStr (ascii ''JBL Hi-Fi (10 repro)''))]),
           PDict (dict_display
               [(ascii ''generacia'', PStr (ascii ''Gen 2'')),
                (ascii ''roky'', PStr (ascii ''2018-s'' @ [0xFA, 0x10D] @ ascii ''asnos'' @ [0x165])),
                (ascii ''zakladny_system'', PStr (ascii ''Z'' @ [0xE1] @ ascii ''kladn'' @ [0xFD] @ ascii '' (8 repro)'')),
                (ascii ''premiovy_system'', PStr (ascii ''Focal Premium Hi-Fi (10 repro)''))])])])),
      (ascii ''Citroen'', PDict (dict_display [
         (ascii ''C3'', PList [
           PDict (dict_display
               [(ascii ''generacia'', PStr (ascii ''Gen 3'')),
                (ascii ''roky'', PStr (ascii ''2016-s'' @ [0xFA, 0x10D] @ ascii ''asnos'' @ [0x165])),
                (ascii ''zakladny_system'', PStr (ascii ''Z'' @ [0xE1] @ ascii ''kladn'' @ [0xFD] @ ascii '' (4-6 repro)'')),
                (ascii ''premiovy_system'', PStr ([0x17D] @ ascii ''iaden zna'' @ [0x10D] @ ascii ''kov'' @ [0xFD] @ ascii '' pr'' @ [0xE9] @ ascii ''miov'' @ [0xFD] @ ascii '' syst'' @ [0xE9] @ ascii ''m''))])]),
         (ascii ''C4'', PList [
           PDict (dict_display
               [(ascii ''generacia'', PStr (ascii ''Gen 2'')),
                (ascii ''roky'', PStr (ascii ''2010-2018'')),
                (ascii ''zakladny_system'', PStr (ascii ''Z'' @ [0xE1] @ ascii ''kladn'' @ [0xFD] @ ascii '' (6 repro)'')),
                (ascii ''premiovy_system'', PStr (ascii ''Denon Hi-Fi (9 repro, s DSP)''))]),
           PDict (dict_display
               [(ascii ''generacia'', PStr (ascii ''Gen 3'')),
                (ascii ''roky'', PStr (ascii ''2020-s'' @ [0xFA, 0x10D] @ ascii ''asnos'' @ [0x165])),
                (ascii ''zakladny_system'', PStr (ascii ''Z'' @ [0xE1] @ ascii ''kladn'' @ [0xFD] @ ascii '' (6 repro)'')),
                (ascii ''premiovy_system'', PStr (ascii ''Hi-Fi System (8 repro s Arkamys processing)''))])]),
         (ascii ''C5 Aircross'', PList [
           PDict (dict_display
               [(ascii ''generacia'', PStr (ascii ''Gen 1'')),
                (ascii ''roky'', PStr (ascii ''2017-s'' @ [0xFA, 0x10D] @ ascii ''asnos'' @ [0x165])),
                (ascii ''zakladny_system'', PStr (ascii ''Z'' @ [0xE1] @ ascii ''kladn'' @ [0xFD] @ ascii '' (6 repro)'')),
                (ascii ''premiovy_system'', PStr (ascii ''Citro'' @ [0xEB] @ ascii ''n HiFi System (8 repro, Arkamys)''))])])])),
      (ascii ''DS Automobiles'', PDict (dict_display [
         (ascii ''DS 4'', PList [
           PDict (dict_display
               [(ascii ''generacia'', PStr (ascii ''Gen 2'')),
                (ascii ''roky'', PStr (ascii ''2021-s'' @ [0xFA, 0x10D] @ ascii ''asnos'' @ [0x165])),
                (ascii ''zakladny_system'', PStr (ascii ''Z'' @ [0xE1] @ ascii ''kladn'' @ [0xFD] @ ascii '' (8 repro)'')),
                (ascii ''premiovy_system'', PStr (ascii ''Focal Electra (14 repro)''))])]),
         (ascii ''DS 7 Crossback'', PList [
           PDict (dict_display
               [(ascii ''generacia'', PStr (ascii ''Gen 1'')),
                (ascii ''roky'', PStr (ascii ''2017-s'' @ [0xFA, 0x10D] @ ascii ''asnos'' @ [0x165])),
                (ascii ''zakladny_system'', PStr (ascii ''Z'' @ [0xE1] @ ascii ''kladn'' @ [0xFD] @ ascii '' (8 repro, Arkamys)'')),
                (ascii ''premiovy_system'', PStr (ascii ''Focal Electra (14 repro, 515W)''))])])])),
      (ascii ''Opel'', PDict (dict_display [
         (ascii ''Corsa'', PList [
           PDict (dict_display
               [(ascii ''generacia'', PStr (ascii ''E'')),
                (ascii ''roky'', PStr (ascii ''2014-2019'')),
                (ascii ''zakladny_system'', PStr (ascii ''Z'' @ [0xE1] @ ascii ''kladn'' @ [0xFD] @ ascii '' (4-6 repro)'')),
                (ascii ''premiovy_system'', PStr ([0x17D] @ ascii ''iaden zna'' @ [0x10D] @ ascii ''kov'' @ [0xFD] @ ascii '' pr'' @ [0xE9] @ ascii ''miov'' @ [0xFD] @ ascii '' syst'' @ [0xE9] @ ascii ''m''))]),
           PDict (dict_display
               [(ascii ''generacia'', PStr (ascii ''F'')),
                (ascii ''roky'', PStr (ascii ''2019-s'' @ [0xFA, 0x10D] @ ascii ''asnos'' @ [0x165])),
                (ascii ''zakladny_system'', PStr (ascii ''Z'' @ [0xE1] @ ascii ''kladn'' @ [0xFD] @ ascii '' (4-6 repro)'')),
                (ascii ''premiovy_system'', PStr ([0x17D] @ ascii ''iaden zna'' @ [0x10D] @ ascii ''kov'' @ [0xFD] @ ascii '' pr'' @ [0xE9] @ ascii ''miov'' @ [0xFD] @ ascii '' syst'' @ [0xE9] @ ascii ''m''))])]),
         (ascii ''Astra'', PList [
           PDict (dict_display
               [(ascii ''generacia'', PStr (ascii ''J (Facelift)'')),
                (ascii ''roky'', PStr (ascii ''2012-2015'')),
                (ascii ''zakladny_system'', PStr (ascii ''Z'' @ [0xE1] @ ascii ''kladn'' @ [0xFD] @ ascii '' (6 repro)'')),
                (ascii ''premiovy_system'', PStr (ascii ''Infinity Sound System (7 repro)''))]),
           PDict (dict_display
               [(ascii ''generacia'', PStr (ascii ''K'')),
                (ascii ''roky'', PStr (ascii ''2015-2021'')),
                (ascii ''zakladny_system'', PStr (ascii ''Z'' @ [0xE1] @ ascii ''kladn'' @ [0xFD] @ ascii '' (6 repro)'')),
                (ascii ''premiovy_system'', PStr (ascii ''Bose (7 repro)''))]),
           PDict (dict_display
               [(ascii ''generacia'', PStr (ascii ''L'')),
                (ascii ''roky'', PStr (ascii ''2021-s'' @ [0xFA, 0x10D] @ ascii ''asnos'' @ [0x165])),
                (ascii ''zakladny_system'', PStr (ascii ''Z'' @ [0xE1] @ ascii ''kladn'' @ [0xFD] @ ascii '' (6 repro)'')),
                (ascii ''premiovy_system'', PStr (ascii ''Hi-Fi Sound System (8 repro) (Nezna'' @ [0x10D] @ ascii ''kov'' @ [0xFD] @ ascii '')''))])]),
         (ascii ''Insignia'', PList [
           PDict (dict_display
               [(ascii ''generacia'', PStr (ascii ''A (Facelift)'')),
                (ascii ''roky'', PStr (ascii ''2013-2017'')),
                (ascii ''zakladny_system'', PStr (ascii ''Z'' @ [0xE1] @ ascii ''kladn'' @ [0xFD] @ ascii '' (7 repro)'')),
                (ascii ''premiovy_system'', PStr (ascii ''Bose (9 repro)''))]),
           PDict (dict_display
               [(ascii ''generacia'', PStr (ascii ''B'')),
                (ascii ''roky'', PStr (ascii ''2017-2023'')),
                (ascii ''zakladny_system'', PStr (ascii ''Z'' @ [0xE1] @ ascii ''kladn'' @ [0xFD] @ ascii '' (7 repro)'')),
                (ascii ''premiovy_system'', PStr (ascii ''Bose (8 repro)''))])])])),
      (ascii ''Fiat'', PDict (dict_display [
         (ascii ''500'', PList [
           PDict (dict_display
               [(ascii ''generacia'', PStr (ascii ''Modern'' @ [0xFD] @ ascii '' (Facelift)'')),
                (ascii ''roky'', PStr (ascii ''2016-s'' @ [0xFA, 0x10D] @ ascii ''asnos'' @ [0x165] @ ascii '' (spa'' @ [0x13E] @ ascii ''ovac'' @ [0xED] @ ascii '')'')),
                (ascii ''zakladny_system'', PStr (ascii ''Z'' @ [0xE1] @ ascii ''kladn'' @ [0xFD] @ ascii '' (4-6 repro)'')),
                (ascii ''premiovy_system'', PStr (ascii ''BeatsAudio (7 repro, 440W)''))]),
           PDict (dict_display
               [(ascii ''generacia'', PStr (ascii ''500e (Elektrick'' @ [0xFD] @ ascii '')'')),
                (ascii ''roky'', PStr (ascii ''2020-s'' @ [0xFA, 0x10D] @ ascii ''asnos'' @ [0x165])),
                (ascii ''zakladny_system'', PStr (ascii ''Z'' @ [0xE1] @ ascii ''kladn'' @ [0xFD] @ ascii '' (4 repro)'')),
                (ascii ''premiovy_system'', PStr (ascii ''JBL Premium Audio (7 repro)''))])]),
         (ascii ''Tipo'', PList [
           PDict (dict_display
               [(ascii ''generacia'', PStr (ascii ''Aegae'')),
                (ascii ''roky'', PStr (ascii ''2015-s'' @ [0xFA, 0x10D] @ ascii ''asnos'' @ [0x165])),
                (ascii ''zakladny_system'', PStr (ascii ''Uconnect (4 alebo 6 repro)'')),
                (ascii ''premiovy_system'', PStr ([0x17D] @ ascii ''iaden zna'' @ [0x10D] @ ascii ''kov'' @ [0xFD] @ ascii '' pr'' @ [0xE9] @ ascii ''miov'' @ [0xFD] @ ascii '' syst'' @ [0xE9] @ ascii ''m''))])])])),
      (ascii ''Alfa Romeo'', PDict (dict_display [
         (ascii ''Giulia'', PList [
           PDict (dict_display
               [(ascii ''generacia'', PStr (ascii ''952'')),
                (ascii ''roky'', PStr (ascii ''2016-s'' @ [0xFA, 0x10D] @ ascii ''asnos'' @ [0x165])),
                (ascii ''zakladny_system'', PStr (ascii ''Z'' @ [0xE1] @ ascii ''kladn'' @ [0xFD] @ ascii '' (8 repro)'')),
                (ascii ''premiovy_system'', PStr (ascii ''Harman Kardon (14 repro, 900W)''))])]),
         (ascii ''Stelvio'', PList [
           PDict (dict_display
               [(ascii ''generacia'', PStr (ascii ''949'')),
                (ascii ''roky'', PStr (ascii ''2017-s'' @ [0xFA, 0x10D] @ ascii ''asnos'' @ [0x165])),
                (ascii ''zakladny_system'', PStr (ascii ''Z'' @ [0xE1] @ ascii ''kladn'' @ [0xFD] @ ascii '' (8 repro)'')),
                (ascii ''premiovy_system'', PStr (ascii ''Harman Kardon (14 repro, 900W)''))])]),
         (ascii ''Tonale'', PList [
           PDict (dict_display
               [(ascii ''generacia'', PStr (ascii ''Gen 1'')),
                (ascii ''roky'', PStr (ascii ''2022-s'' @ [0xFA, 0x10D] @ ascii ''asnos'' @ [0x165])),
                (ascii ''zakladny_system'', PStr (ascii ''Z'' @ [0xE1] @ ascii ''kladn'' @ [0xFD] @ ascii '' (6 repro)'')),
                (ascii ''premiovy_system'', PStr (ascii ''Harman Kardon (14 repro)''))])])])),
      (ascii ''Maserati'', PDict (dict_display [
         (ascii ''Ghibli'', PList [
           PDict (dict_display
               [(ascii ''generacia'', PStr (ascii ''M157'')),
                (ascii ''roky'', PStr (ascii ''2013-s'' @ [0xFA, 0x10D] @ ascii ''asnos'' @ [0x165])),
                (ascii ''zakladny_system'', PStr (ascii ''Z'' @ [0xE1] @ ascii ''kladn'' @ [0xFD] @ ascii '' (8 repro)'')),
                (ascii ''premiovy_system'', PStr (ascii ''Harman Kardon (10 repro, 900W) ALEBO Bowers & Wilkins (15 repro, 1280W)''))])])])),
      (ascii ''Jeep'', PDict (dict_display [
         (ascii ''Renegade'', PList [
           PDict (dict_display
               [(ascii ''generacia'', PStr (ascii ''Gen 1'')),
                (ascii ''roky'', PStr (ascii ''2014-s'' @ [0xFA, 0x10D] @ ascii ''asnos'' @ [0x165])),
                (ascii ''zakladny_system'', PStr (ascii ''Z'' @ [0xE1] @ ascii ''kladn'' @ [0xFD] @ ascii '' (6 repro)'')),
                (ascii ''premiovy_system'', PStr (ascii ''BeatsAudio (9 repro, 506W)''))])]),
         (ascii ''Compass'', PList [
           PDict (dict_display
               [(ascii ''generacia'', PStr (ascii ''MP'')),
                (ascii ''roky'', PStr (ascii ''2017-s'' @ [0xFA, 0x10D] @ ascii ''asnos'' @ [0x165])),
                (ascii ''zakladny_system'', PStr (ascii ''Z'' @ [0xE1] @ ascii ''kladn'' @ [0xFD] @ ascii '' (6 repro)'')),
                (ascii ''premiovy_system'', PStr (ascii ''BeatsAudio (9 repro, 506W)''))])])]))]"

definition fragment_420_items :: "(pystr \<times> pydata) list" where
  "fragment_420_items =
    [
      (ascii ''Renault'', PDict (dict_display [
         (ascii ''Clio'', PList [
           PDict (dict_display
               [(ascii ''generacia'', PStr (ascii ''Gen 4'')),
                (ascii ''roky'', PStr (ascii ''2012-2019'')),
                (ascii ''zakladny_system'', PStr (ascii ''Z'' @ [0xE1] @ ascii ''kladn'' @ [0xFD] @ ascii '' (4 repro) alebo R-Link (6 repro)'')),
                (ascii ''premiovy_system'', PStr (ascii ''Bose Sound System (7 repro)''))]),
           PDict (dict_display
               [(ascii ''generacia'', PStr (ascii ''Gen 5'')),
                (ascii ''roky'', PStr (ascii ''2019-s'' @ [0xFA, 0x10D] @ ascii ''asnos'' @ [0x165])),
                (ascii ''zakladny_system'', PStr (ascii ''Z'' @ [0xE1] @ ascii ''kladn'' @ [0xFD] @ ascii '' (6 repro)'')),
                (ascii ''premiovy_system'', PStr (ascii ''Bose Sound System (9 repro)''))])]),
         (ascii ''Megane'', PList [
           PDict (dict_display
               [(ascii ''generacia'', PStr (ascii ''Gen 3 (Facelift)'')),
                (ascii ''roky'', PStr (ascii ''2012-2016'')),
                (ascii ''zakladny_system'', PStr (ascii ''Z'' @ [0xE1] @ ascii ''kladn'' @ [0xFD] @ ascii '' (4-6 repro)'')),
                (ascii ''premiovy_system'', PStr (ascii ''Bose Sound System (9 repro)''))]),
           PDict (dict_display
               [(ascii ''generacia'', PStr (ascii ''Gen 4 (Spa'' @ [0x13E] @ ascii ''ovac'' @ [0xED] @ ascii '')'')),
                (ascii ''roky'', PStr (ascii ''2016-2023'')),
                (ascii ''zakladny_system'', PStr (ascii ''Z'' @ [0xE1] @ ascii ''kladn'' @ [0xFD] @ ascii '' (4-8 repro)'')),
                (ascii ''premiovy_system'', PStr (ascii ''Bose Sound System (9 repro)''))]),
           PDict (dict_display
               [(ascii ''generacia'', PStr (ascii ''Megane E-Tech (Elektrick'' @ [0xFD] @ ascii '')'')),
                (ascii ''roky'', PStr (ascii ''2022-s'' @ [0xFA, 0x10D] @ ascii ''asnos'' @ [0x165])),
                (ascii ''zakladny_system'', PStr (ascii ''Arkamys (6 repro)'')),
                (ascii ''premiovy_system'', PStr (ascii ''Harman Kardon (9 repro, 410W)''))])]),
         (ascii ''Captur'', PList [
           PDict (dict_display
               [(ascii ''generacia'', PStr (ascii ''Gen 1'')),
                (ascii ''roky'', PStr (ascii ''2013-2019'')),
                (ascii ''zakladny_system'', PStr (ascii ''Z'' @ [0xE1] @ ascii ''kladn'' @ [0xFD] @ ascii '' (4-6 repro)'')),
                (ascii ''premiovy_system'', PStr (ascii ''Bose Sound System (7 repro)''))]),
           PDict (dict_display
               [(ascii ''generacia'', PStr (ascii ''Gen 2'')),
                (ascii ''roky'', PStr (ascii ''2019-s'' @ [0xFA, 0x10D] @ ascii ''asnos'' @ [0x165])),
                (ascii ''zakladny_system'', PStr (ascii ''Z'' @ [0xE1] @ ascii ''kladn'' @ [0xFD] @ ascii '' (6 repro)'')),
                (ascii ''premiovy_system'', PStr (ascii ''Bose Sound System (9 repro)''))])]),
         (ascii ''Austral'', PList [
           PDict (dict_display
               [(ascii ''generacia'', PStr (ascii ''Gen 1'')),
                (ascii ''roky'', PStr (ascii ''2022-s'' @ [0xFA, 0x10D] @ ascii ''asnos'' @ [0x165])),
                (ascii ''zakladny_system'', PStr (ascii ''Arkamys (8 repro)'')),
                (ascii ''premiovy_system'', PStr (ascii ''Harman Kardon (12 repro)''))])])])),
      (ascii ''Dacia'', PDict (dict_display [
         (ascii ''Duster'', PList [
           PDict (dict_display
               [(ascii ''generacia'', PStr (ascii ''Gen 1 (Facelift)'')),
                (ascii ''roky'', PStr (ascii ''2013-2017'')),
                (ascii ''zakladny_system'', PStr (ascii ''Z'' @ [0xE1] @ ascii ''kladn'' @ [0xFD] @ ascii '' (2-4 repro)'')),
                (ascii ''premiovy_system'', PStr (ascii ''Media Nav (4 repro)''))]),
           PDict (dict_display
               [(ascii ''generacia'', PStr (ascii ''Gen 2'')),
                (ascii ''roky'', PStr (ascii ''2017-2023'')),
                (ascii ''zakladny_system'', PStr (ascii ''Z'' @ [0xE1] @ ascii ''kladn'' @ [0xFD] @ ascii '' (4 repro)'')),
                (ascii ''premiovy_system'', PStr (ascii ''Media Nav (6 repro)''))])]),
         (ascii ''Sandero'', PList [
           PDict (dict_display
               [(ascii ''generacia'', PStr (ascii ''Gen 2'')),
                (ascii ''roky'', PStr (ascii ''2012-2020'')),
                (ascii ''zakladny_system'', PStr (ascii ''Z'' @ [0xE1] @ ascii ''kladn'' @ [0xFD] @ ascii '' (2-4 repro)'')),
                (ascii ''premiovy_system'', PStr (ascii ''Media Nav (4 repro)''))]),
           PDict (dict_display
               [(ascii ''generacia'', PStr (ascii ''Gen 3'')),
                (ascii ''roky'', PStr (ascii ''2020-s'' @ [0xFA, 0x10D] @ ascii ''asnos'' @ [0x165])),
                (ascii ''zakladny_system'', PStr (ascii ''Z'' @ [0xE1] @ ascii ''kladn'' @ [0xFD] @ ascii '' (4 repro)'')),
                (ascii ''premiovy_system'', PStr (ascii ''Media Nav (6 repro)''))])])])),
      (ascii ''Volvo'', PDict (dict_display [
         (ascii ''S60/V60'', PList [
           PDict (dict_display
               [(ascii ''generacia'', PStr (ascii ''Gen 2'')),
                (ascii ''roky'', PStr (ascii ''2010-2018'')),
                (ascii ''zakladny_system'', PStr (ascii ''High Performance (8 repro)'')),
                (ascii ''premiovy_system'', PStr (ascii ''Harman Kardon (12 repro)''))]),
           PDict (dict_display
               [(ascii ''generacia'', PStr (ascii ''Gen 3'')),
                (ascii ''roky'', PStr (ascii ''2019-s'' @ [0xFA, 0x10D] @ ascii ''asnos'' @ [0x165])),
                (ascii ''zakladny_system'', PStr (ascii ''High Performance (10 repro)'')),
                (ascii ''premiovy_system'', PStr (ascii ''Harman Kardon (14 repro) ALEBO Bowers & Wilkins (15 repro)''))])]),
         (ascii ''S90/V90'', PList [
           PDict (dict_display
               [(ascii ''generacia'', PStr (ascii ''Gen 2'')),
                (ascii ''roky'', PStr (ascii ''2016-s'' @ [0xFA, 0x10D] @ ascii ''asnos'' @ [0x165])),
                (ascii ''zakladny_system'', PStr (ascii ''High Performance (10 repro)'')),
                (ascii ''premiovy_system'', PStr (ascii ''Harman Kardon (14 repro) ALEBO Bowers & Wilkins (19 repro)''))])]),
         (ascii ''XC60'', PList [
           PDict (dict_display
               [(ascii ''generacia'', PStr (ascii ''Gen 1'')),
                (ascii ''roky'', PStr (ascii ''2008-2017'')),
                (ascii ''zakladny_system'', PStr (ascii ''High Performance (8 repro)'')),
                (ascii ''premiovy_system'', PStr (ascii ''Harman Kardon (12 repro)''))]),
           PDict (dict_display
               [(ascii ''generacia'', PStr (ascii ''Gen 2'')),
                (ascii ''roky'', PStr (ascii ''2017-s'' @ [0xFA, 0x10D] @ ascii ''asnos'' @ [0x165])),
                (ascii ''zakladny_system'', PStr (ascii ''High Performance (10 repro)'')),
                (ascii ''premiovy_system'', PStr (ascii ''Harman Kardon (14 repro) ALEBO Bowers & Wilkins (15 repro)''))])]),
         (ascii ''XC90'', PList [
           PDict (dict_display
               [(ascii ''generacia'', PStr (ascii ''Gen 2'')),
                (ascii ''roky'', PStr (ascii ''2015-s'' @ [0xFA, 0x10D] @ ascii ''asnos'' @ [0x165])),
                (ascii ''zakladny_system'', PStr (ascii ''High Performance (10 repro)'')),
                (ascii ''premiovy_system'', PStr (ascii ''Harman Kardon (14 repro) ALEBO Bowers & Wilkins (19 repro)''))])])])),
      (ascii ''Ford'', PDict (dict_display [
         (ascii ''Fiesta'', PList [
           PDict (dict_display
               [(ascii ''generacia'', PStr (ascii ''Mk7'')),
                (ascii ''roky'', PStr (ascii ''2008-2017'')),
                (ascii ''zakladny_system'', PStr (ascii ''Z'' @ [0xE1] @ ascii ''kladn'' @ [0xFD] @ ascii '' (4-6 repro)'')),
                (ascii ''premiovy_system'', PStr (ascii ''Sony (8 repro)''))]),
           PDict (dict_display
               [(ascii ''generacia'', PStr (ascii ''Mk8'')),
                (ascii ''roky'', PStr (ascii ''2017-2023'')),
                (ascii ''zakladny_system'', PStr (ascii ''Z'' @ [0xE1] @ ascii ''kladn'' @ [0xFD] @ ascii '' (6 repro)'')),
                (ascii ''premiovy_system'', PStr (ascii ''B&O Play (10 repro)''))])]),
         (ascii ''Focus'', PList [
           PDict (dict_display
               [(ascii ''generacia'', PStr (ascii ''Mk3'')),
                (ascii ''roky'', PStr (ascii ''2011-2018'')),
                (ascii ''zakladny_system'', PStr (ascii ''Z'' @ [0xE1] @ ascii ''kladn'' @ [0xFD] @ ascii '' (6 repro)'')),
                (ascii ''premiovy_system'', PStr (ascii ''Sony (10 repro)''))]),
           PDict (dict_display
               [(ascii ''generacia'', PStr (ascii ''Mk4'')),
                (ascii ''roky'', PStr (ascii ''2018-s'' @ [0xFA, 0x10D] @ ascii ''asnos'' @ [0x165])),
                (ascii ''zakladny_system'', PStr (ascii ''Z'' @ [0xE1] @ ascii ''kladn'' @ [0xFD] @ ascii '' (6 repro)'')),
                (ascii ''premiovy_system'', PStr (ascii ''B&O Play (10 repro)''))])]),
         (ascii ''Kuga'', PList [
           PDict (dict_display
               [(ascii ''generacia'', PStr (ascii ''Gen 2'')),
                (ascii ''roky'', PStr (ascii ''2012-2019'')),
                (ascii ''zakladny_system'', PStr (ascii ''Z'' @ [0xE1] @ ascii ''kladn'' @ [0xFD] @ ascii '' (6 repro)'')),
                (ascii ''premiovy_system'', PStr (ascii ''Sony (10 repro)''))]),
           PDict (dict_display
               [(ascii ''generacia'', PStr (ascii ''Gen 3'')),
                (ascii ''roky'', PStr (ascii ''2019-s'' @ [0xFA, 0x10D] @ ascii ''asnos'' @ [0x165])),
                (ascii ''zakladny_system'', PStr (ascii ''Z'' @ [0xE1] @ ascii ''kladn'' @ [0xFD] @ ascii '' (6 repro)'')),
                (ascii ''premiovy_system'', PStr (ascii ''B&O Play (10 repro)''))])])])),
      (ascii ''Jaguar'', PDict (dict_display [
         (ascii ''XE'', PList [
           PDict (dict_display
               [(ascii ''generacia'', PStr (ascii ''X760'')),
                (ascii ''roky'', PStr (ascii ''2015-s'' @ [0xFA, 0x10D] @ ascii ''asnos'' @ [0x165])),
                (ascii ''zakladny_system'', PStr (ascii ''Jaguar Sound (6 repro, 80W)'')),
                (ascii ''premiovy_system'', PStr (ascii ''Meridian Sound (11 repro, 380W) ALEBO Meridian Surround (17 repro, 825W)''))])]),
         (ascii ''F-Pace'', PList [
           PDict (dict_display
               [(ascii ''generacia'', PStr (ascii ''X761'')),
                (ascii ''roky'', PStr (ascii ''2016-s'' @ [0xFA, 0x10D] @ ascii ''asnos'' @ [0x165])),
                (ascii ''zakladny_system'', PStr (ascii ''Jaguar Sound (8 repro)'')),
                (ascii ''premiovy_system'', PStr (ascii ''Meridian Sound (11 repro, 380W) ALEBO Meridian Surround (17 repro, 825W)''))])])])),
      (ascii ''Land Rover'', PDict (dict_display [
         (ascii ''Range Rover Evoque'', PList [
           PDict (dict_display
               [(ascii ''generacia'', PStr (ascii ''L538 (Gen 1)'')),
                (ascii ''roky'', PStr (ascii ''2011-2018'')),
                (ascii ''zakladny_system'', PStr (ascii ''Land Rover Sound (8 repro)'')),
                (ascii ''premiovy_system'', PStr (ascii ''Meridian Sound (11 repro, 380W) ALEBO Meridian Surround (17 repro, 825W)''))]),
           PDict (dict_display
               [(ascii ''generacia'', PStr (ascii ''L551 (Gen 2)'')),
                (ascii ''roky'', PStr (ascii ''2019-s'' @ [0xFA, 0x10D] @ ascii ''asnos'' @ [0x165])),
                (ascii ''zakladny_system'', PStr (ascii ''Z'' @ [0xE1] @ ascii ''kladn'' @ [0xFD] @ ascii '' (6 repro) alebo Sound System (10 repro, 180W)'')),
                (ascii ''premiovy_system'', PStr (ascii ''Meridian Sound (14 repro, 400W) ALEBO Meridian Surround (16 repro, 650W)''))])]),
         (ascii ''Defender'', PList [
           PDict (dict_display
               [(ascii ''generacia'', PStr (ascii ''L663'')),
                (ascii ''roky'', PStr (ascii ''2020-s'' @ [0xFA, 0x10D] @ ascii ''asnos'' @ [0x165])),
                (ascii ''zakladny_system'', PStr (ascii ''Z'' @ [0xE1] @ ascii ''kladn'' @ [0xFD] @ ascii '' (6 repro)'')),
                (ascii ''premiovy_system'', PStr (ascii ''Meridian Sound (10 repro, 400W) ALEBO Meridian Surround (14 repro, 700W)''))])])])),
      (ascii ''Mini'', PDict (dict_display [
         (ascii ''Cooper (Hatch)'', PList [
           PDict (dict_display
               [(ascii ''generacia'', PStr (ascii ''F56 (Gen 3)'')),
                (ascii ''roky'', PStr (ascii ''2014-s'' @ [0xFA, 0x10D] @ ascii ''asnos'' @ [0x165])),
                (ascii ''zakladny_system'', PStr (ascii ''Z'' @ [0xE1] @ ascii ''kladn'' @ [0xFD] @ ascii '' (4 alebo 6 repro)'')),
                (ascii ''premiovy_system'', PStr (ascii ''Harman Kardon (12 repro)''))])]),
         (ascii ''Countryman'', PList [
           PDict (dict_display
               [(ascii ''generacia'', PStr (ascii ''F60 (Gen 2)'')),
                (ascii ''roky'', PStr (ascii ''2017-s'' @ [0xFA, 0x10D] @ ascii ''asnos'' @ [0x165])),
                (ascii ''zakladny_system'', PStr (ascii ''Z'' @ [0xE1] @ ascii ''kladn'' @ [0xFD] @ ascii '' (6 repro)'')),
                (ascii ''premiovy_system'', PStr (ascii ''Harman Kardon (12 repro)''))])])]))]"

definition vag_group_data :: pydata where
  "vag_group_data = PDict (dict_display vag_group_items)"

definition german_premium_data :: pydata where
  "german_premium_data = PDict (dict_display german_premium_items)"

definition main_py :: "toplevel list" where
  "main_py =
     [Assign (ascii ''auto_audio_db'') (PDict (dict_display [])),
      PrintStmt (ascii ''Core datab'' @ [0xE1] @ ascii ''za inicializovan'' @ [0xE1] @ ascii ''.''),
      Assign (ascii ''vag_group_data'') vag_group_data,
      Assign (ascii ''german_premium_data'') german_premium_data,
      Stray 326 fragment_326_items,
      Stray 420 fragment_420_items]"

section \<open>The shape of an entry\<close>

text \<open>
  Every generation record of \<open>main.py\<close> is a dict display with the keys
  \<open>generacia\<close>, \<open>roky\<close>, \<open>zakladny_system\<close> and \<open>premiovy_system\<close>, the names under
  which the specification's fields generation, years, base system and premium system
  travel in the request body. An entry has exactly these four fields, each a string,
  when its keys are these four and nothing else and every value is a str.
\<close>

definition entry_fields :: "pystr list" where
  "entry_fields =
     [ascii ''generacia'', ascii ''roky'', ascii ''zakladny_system'', ascii ''premiovy_system'']"

fun is_str :: "pydata \<Rightarrow> bool" where
  "is_str (PStr s) = True"
| "is_str v = False"

fun four_string_fields :: "pydata \<Rightarrow> bool" where
  "four_string_fields (PDict kvs) =
     (length kvs = 4 \<and> set (map fst kvs) = set entry_fields \<and> list_all is_str (map snd kvs))"
| "four_string_fields v = False"

section \<open>\<open>json.loads\<close>\<close>

text \<open>
  The decoder of the \<open>json\<close> module, for reading back what the encoder above wrote.
  It is modelled on the texts made of objects, arrays and strings, the three kinds of
  value that the data of the program has: on a number or on one of \<open>true\<close>, \<open>false\<close>,
  \<open>null\<close> the model gives \<open>None\<close>, where the module would decode the token, and it
  gives \<open>None\<close> as well wherever the module raises \<open>JSONDecodeError\<close>. White space is a
  run of spaces, tabs, line feeds and carriage returns.
\<close>

definition is_ws :: "nat \<Rightarrow> bool" where
  "is_ws c = (c = 32 \<or> c = 9 \<or> c = 10 \<or> c = 13)"

definition skip_ws :: "pystr \<Rightarrow> pystr" where
  "skip_ws s = dropWhile is_ws s"

text \<open>
  A string, read from behind its opening quote up to the closing one. A backslash
  starts an escape: one of the eight short forms, or \<open>\u\<close> and four hexadecimal digits
  of either case, where a high surrogate followed by an escaped low surrogate, and by
  at least one more character, makes one code point. A control character
  below \<open>0x20\<close> that is not escaped is an error.
\<close>

definition hexval :: "nat \<Rightarrow> nat option" where
  "hexval c =
     (if 48 \<le> c \<and> c \<le> 57 then Some (c - 48)
      else if 97 \<le> c \<and> c \<le> 102 then Some (c - 87)
      else if 65 \<le> c \<and> c \<le> 70 then Some (c - 55)
      else None)"

definition backslash :: "nat \<Rightarrow> nat option" where
  "backslash c =
     (if c = 34 then Some 34
      else if c = 92 then Some 92
      else if c = 47 then Some 47
      else if c = 98 then Some 8
      else if c = 102 then Some 12
      else if c = 110 then Some 10
      else if c = 114 then Some 13
      else if c = 116 then Some 9
      else None)"

definition take_hex4 :: "pystr \<Rightarrow> (nat \<times> pystr) option" where
  "take_hex4 s =
     (case s of
        h1 # h2 # h3 # h4 # rest \<Rightarrow>
          (case (hexval h1, hexval h2, hexval h3, hexval h4) of
             (Some x, Some y, Some z, Some w) \<Rightarrow> Some (((x * 16 + y) * 16 + z) * 16 + w, rest)
           | _ \<Rightarrow> None)
      | _ \<Rightarrow> None)"

definition decode_escape :: "pystr \<Rightarrow> (nat \<times> pystr) option" where
  "decode_escape s =
     (case s of
        [] \<Rightarrow> None
      | esc # cs \<Rightarrow>
          if esc = 117 then
            (case take_hex4 cs of
               None \<Rightarrow> None
             | Some (uni, rest) \<Rightarrow>
                 if 0xD800 \<le> uni \<and> uni \<le> 0xDBFF \<and> take 2 rest = [92, 117] \<and> 6 < length rest then
                   (case take_hex4 (drop 2 rest) of
                      None \<Rightarrow> None
                    | Some (uni2, rest') \<Rightarrow>
                        if 0xDC00 \<le> uni2 \<and> uni2 \<le> 0xDFFF
                        then Some (0x10000 + (uni - 0xD800) * 1024 + (uni2 - 0xDC00), rest')
                        else Some (uni, rest))
                 else Some (uni, rest))
          else
            (case backslash esc of
               None \<Rightarrow> None
             | Some ch \<Rightarrow> Some (ch, cs)))"

definition push_char :: "nat \<Rightarrow> (pystr \<times> pystr) option \<Rightarrow> (pystr \<times> pystr) option" where
  "push_char c r = (case r of None \<Rightarrow> None | Some (s, rest) \<Rightarrow> Some (c # s, rest))"

lemma take_hex4_shorter: "take_hex4 s = Some (u, rest) \<Longrightarrow> length rest < length s"
  by (auto simp: take_hex4_def split: list.splits option.splits)

lemma decode_escape_shorter: "decode_escape s = Some (ch, rest) \<Longrightarrow> length rest < length s"
  by (auto simp: decode_escape_def split: list.splits option.splits if_splits
      dest!: take_hex4_shorter)

function scanstring :: "pystr \<Rightarrow> (pystr \<times> pystr) option" where
  "scanstring [] = None"
| "scanstring (c # cs) =
     (if c = 34 then Some ([], cs)
      else if c = 92 then
        (case decode_escape cs of
           None \<Rightarrow> None
         | Some (ch, rest) \<Rightarrow> push_char ch (scanstring rest))
      else if c < 32 then None
      else push_char c (scanstring cs))"
  by pat_completeness auto
termination
  by (relation "measure length") (auto dest: decode_escape_shorter)

text \<open>
  One member of an object, from the opening quote of its key: the key, a colon, and
  the value, which is read by the scanner given as \<open>scan_once\<close>, as in the module.
\<close>

definition parse_member ::
  "(pystr \<Rightarrow> (pydata \<times> pystr) option) \<Rightarrow> pystr \<Rightarrow> ((pystr \<times> pydata) \<times> pystr) option" where
  "parse_member scan_once s =
     (case s of
        [] \<Rightarrow> None
      | q # cs \<Rightarrow>
          if q = 34 then
            (case scanstring cs of
               None \<Rightarrow> None
             | Some (key, rest) \<Rightarrow>
                 (case skip_ws rest of
                    [] \<Rightarrow> None
                  | c # cs' \<Rightarrow>
                      if c = 58 then
                        (case scan_once (skip_ws cs') of
                           None \<Rightarrow> None
                         | Some (v, rest') \<Rightarrow> Some ((key, v), rest'))
                      else None))
          else None)"

text \<open>
  The scanner. After an opening bracket or brace comes the closing one at once, or a
  first item followed by the rest, each further item after a comma; white space may
  stand around every item and separator. The pairs of an object are stored into a
  dict from left to right. The first argument bounds the nesting of the calls:
  \<open>json_loads\<close> starts with more than the length of the text, refuses a text that starts
  with a byte order mark, and accepts nothing but white space behind the value.
\<close>

fun parse_value :: "nat \<Rightarrow> pystr \<Rightarrow> (pydata \<times> pystr) option"
  and array_tail :: "nat \<Rightarrow> pystr \<Rightarrow> (pydata list \<times> pystr) option"
  and object_tail :: "nat \<Rightarrow> pystr \<Rightarrow> ((pystr \<times> pydata) list \<times> pystr) option"
where
  "parse_value 0 s = None"
| "parse_value (Suc n) [] = None"
| "parse_value (Suc n) (c # cs) =
     (if c = 34 then
        (case scanstring cs of
           None \<Rightarrow> None
         | Some (str, rest) \<Rightarrow> Some (PStr str, rest))
      else if c = 91 then
        (case skip_ws cs of
           [] \<Rightarrow> None
         | d # ds \<Rightarrow>
             if d = 93 then Some (PList [], ds)
             else
               (case parse_value n (d # ds) of
                  None \<Rightarrow> None
                | Some (v, rest) \<Rightarrow>
                    (case array_tail n rest of
                       None \<Rightarrow> None
                     | Some (vs, rest') \<Rightarrow> Some (PList (v # vs), rest'))))
      else if c = 123 then
        (case skip_ws cs of
           [] \<Rightarrow> None
         | d # ds \<Rightarrow>
             if d = 125 then Some (PDict [], ds)
             else
               (case parse_member (parse_value n) (d # ds) of
                  None \<Rightarrow> None
                | Some (kv, rest) \<Rightarrow>
                    (case object_tail n rest of
                       None \<Rightarrow> None
                     | Some (kvs, rest') \<Rightarrow> Some (PDict (dict_display (kv # kvs)), rest'))))
      else None)"
| "array_tail 0 s = None"
| "array_tail (Suc n) s =
     (case skip_ws s of
        [] \<Rightarrow> None
      | d # ds \<Rightarrow>
          if d = 93 then Some ([], ds)
          else if d = 44 then
            (case parse_value n (skip_ws ds) of
               None \<Rightarrow> None
             | Some (v, rest) \<Rightarrow>
                 (case array_tail n rest of
                    None \<Rightarrow> None
                  | Some (vs, rest') \<Rightarrow> Some (v # vs, rest')))
          else None)"
| "object_tail 0 s = None"
| "object_tail (Suc n) s =
     (case skip_ws s of
        [] \<Rightarrow> None
      | d # ds \<Rightarrow>
          if d = 125 then Some ([], ds)
          else if d = 44 then
            (case parse_member (parse_value n) (skip_ws ds) of
               None \<Rightarrow> None
             | Some (kv, rest) \<Rightarrow>
                 (case object_tail n rest of
                    None \<Rightarrow> None
                  | Some (kvs, rest') \<Rightarrow> Some (kv # kvs, rest')))
          else None)"

definition json_loads :: "pystr \<Rightarrow> pydata option" where
  "json_loads s =
     (if take 1 s = [0xFEFF] then None
      else
        (case parse_value (Suc (length s)) (skip_ws s) of
           None \<Rightarrow> None
         | Some (obj, rest) \<Rightarrow> if skip_ws rest = [] then Some obj else None))"

text \<open>
  The keys of a Python dict are distinct. In the model a dict is the list of its
  items, so this is said of every dict inside a value.
\<close>

fun distinct_keys :: "pydata \<Rightarrow> bool"
  and distinct_keys_list :: "pydata list \<Rightarrow> bool"
  and distinct_keys_items :: "(pystr \<times> pydata) list \<Rightarrow> bool"
where
  "distinct_keys (PStr s) = True"
| "distinct_keys (PList xs) = distinct_keys_list xs"
| "distinct_keys (PDict kvs) = (distinct (map fst kvs) \<and> distinct_keys_items kvs)"
| "distinct_keys_list [] = True"
| "distinct_keys_list (x # xs) = (distinct_keys x \<and> distinct_keys_list xs)"
| "distinct_keys_items [] = True"
| "distinct_keys_items ((k, v) # kvs) = (distinct_keys v \<and> distinct_keys_items kvs)"

section \<open>How the computations run\<close>

lemma ret_apply: "ret x tr = (Inr x, tr)" by (simp add: ret_def)
lemma raise_apply: "raise e tr = (Inl e, tr)" by (simp add: raise_def)
lemma lift_apply: "lift r tr = (r, tr)" by (simp add: lift_def)
lemma emit_apply: "emit ev tr = (Inr (), tr @ [ev])" by (simp add: emit_def)
lemma py_print_apply:
  "py_print l tr =
     (case first_unprintable l of
        None \<Rightarrow> (Inr (), tr @ [Print l])
      | Some v \<Rightarrow> (Inl (NotEncodable v), tr))"
  by (simp add: py_print_def emit_def raise_def split: option.splits)
lemma bind_apply:
  "bind m f tr = (case m tr of (Inl e, tr') \<Rightarrow> (Inl e, tr') | (Inr x, tr') \<Rightarrow> f x tr')"
  by (simp add: bind_def)
lemma next_do_apply:
  "next_do m k tr = (case m tr of (Inl e, tr') \<Rightarrow> (Inl e, tr') | (Inr x, tr') \<Rightarrow> k tr')"
  by (simp add: next_do_def bind_def)
lemma try_except_apply:
  "try_except m h tr = (case m tr of (Inl e, tr') \<Rightarrow> h e tr' | (Inr x, tr') \<Rightarrow> (Inr x, tr'))"
  by (simp add: try_except_def)

lemmas io_simps = ret_apply raise_apply lift_apply emit_apply py_print_apply bind_apply
  next_do_apply try_except_apply




lemma send_connection_error:
  "isinstance_ConnectionError e \<Longrightarrow>
   send_to_tunexa data (Fails e) tr =
     (Inr False,
      tr @ [Print [Lit (ascii ''Sending ''), Val (JInt (int (data_len data))),
                   Lit (ascii '' brands to Tunexa API...'')],
            Post API_URL [(ascii ''Content-Type'', ascii ''application/json'')]
                 (json_dumps None data) 30,
            Print [Lit (cross_mark @ ascii '' Connection error - is the Tunexa API server running on port 3000?'')],
            Print [Lit (ascii ''   Run: npm start'')]])"
  by (simp add: send_to_tunexa_def requests_post_def on_connection_error_def io_simps)


subsection \<open>Computations that only print\<close>

lemma prints_only_ret: "prints_only (ret x)"
  unfolding prints_only_def by (auto simp: io_simps intro: exI[of _ "[]"])
lemma prints_only_raise: "prints_only (raise e)"
  unfolding prints_only_def by (auto simp: io_simps intro: exI[of _ "[]"])
lemma prints_only_lift: "prints_only (lift r)"
  unfolding prints_only_def by (auto simp: io_simps intro: exI[of _ "[]"])
lemma prints_only_print: "prints_only (py_print l)"
proof (cases "first_unprintable l")
  case None
  then show ?thesis
    unfolding prints_only_def by (auto simp: io_simps intro: exI[of _ "[l]"])
next
  case (Some v)
  then show ?thesis
    unfolding prints_only_def by (auto simp: io_simps intro: exI[of _ "[]"])
qed

lemma prints_only_bind:
  assumes "prints_only m" and "\<And>x. prints_only (f x)"
  shows "prints_only (bind m f)"
  unfolding prints_only_def
proof
  fix tr
  obtain ls where ls: "snd (m tr) = tr @ map Print ls"
    using assms(1) unfolding prints_only_def by blast
  show "\<exists>ks. snd (bind m f tr) = tr @ map Print ks"
  proof (cases "m tr")
    case (Pair r tr')
    with ls have tr': "tr' = tr @ map Print ls" by simp
    show ?thesis
    proof (cases r)
      case (Inl e)
      with Pair tr' show ?thesis by (auto simp: bind_apply)
    next
      case (Inr x)
      obtain ks where "snd (f x tr') = tr' @ map Print ks"
        using assms(2) unfolding prints_only_def by blast
      with Inr Pair tr' have "snd (bind m f tr) = tr @ map Print (ls @ ks)"
        by (simp add: bind_apply)
      then show ?thesis by blast
    qed
  qed
qed

lemma prints_only_next_do:
  "prints_only m \<Longrightarrow> prints_only k \<Longrightarrow> prints_only (next_do m k)"
  unfolding next_do_def by (rule prints_only_bind)

lemma prints_only_for_each:
  "(\<And>x. prints_only (f x)) \<Longrightarrow> prints_only (for_each xs f)"
  by (induction xs) (simp_all add: prints_only_ret prints_only_next_do)

lemma prints_only_if:
  "prints_only a \<Longrightarrow> prints_only b \<Longrightarrow> prints_only (if c then a else b)"
  by simp

lemmas prints_only_intros = prints_only_ret prints_only_raise prints_only_lift
  prints_only_print prints_only_bind prints_only_next_do prints_only_for_each prints_only_if






subsection \<open>The requests of one call\<close>






subsection \<open>The branch for status 200\<close>



















section \<open>The claims about \<open>send_to_tunexa\<close>\<close>



text \<open>
  Claim C4. When \<open>requests.post\<close> raises an instance of \<open>ConnectionError\<close>,
  \<open>send_to_tunexa\<close> prints the connection message and the hint, and returns \<open>False\<close>:
  the exception does not leave the function. Whatever \<open>str()\<close> makes of values and
  exceptions, the text of the connection message differs from the text of the line
  printed for a status other than 200 and from the text of the line printed by the
  generic handler.
\<close>

theorem connection_error_has_its_own_report:
  "isinstance_ConnectionError e \<Longrightarrow>
   send_to_tunexa data (Fails e) tr =
     (Inr False,
      tr @ [Print [Lit (ascii ''Sending ''), Val (JInt (int (data_len data))),
                   Lit (ascii '' brands to Tunexa API...'')],
            Post API_URL [(ascii ''Content-Type'', ascii ''application/json'')]
                 (json_dumps None data) 30,
            Print [Lit (cross_mark @ ascii '' Connection error - is the Tunexa API server running on port 3000?'')],
            Print [Lit (ascii ''   Run: npm start'')]])
   \<and> render str_val str_exc
         [Lit (cross_mark @ ascii '' Connection error - is the Tunexa API server running on port 3000?'')]
       \<noteq> render str_val str_exc [Lit (cross_mark @ ascii '' Error: HTTP ''), Val (JInt status)]
   \<and> render str_val str_exc
         [Lit (cross_mark @ ascii '' Connection error - is the Tunexa API server running on port 3000?'')]
       \<noteq> render str_val str_exc [Lit (cross_mark @ ascii '' Error: ''), ExcText e']"
  by (simp add: send_connection_error render_def cross_mark_def ascii_def)

theorem connection_error_has_its_own_report_witness:
  "isinstance_ConnectionError (Raised ConnectionError (ascii ''Connection refused'')) \<and>
   send_to_tunexa (PDict []) (Fails (Raised ConnectionError (ascii ''Connection refused''))) [] =
     (Inr False,
      [Print [Lit (ascii ''Sending ''), Val (JInt 0), Lit (ascii '' brands to Tunexa API...'')],
       Post API_URL [(ascii ''Content-Type'', ascii ''application/json'')]
            (json_dumps None (PDict [])) 30,
       Print [Lit (cross_mark @ ascii '' Connection error - is the Tunexa API server running on port 3000?'')],
       Print [Lit (ascii ''   Run: npm start'')]])"
  using connection_error_has_its_own_report
    [of "Raised ConnectionError (ascii ''Connection refused'')" "PDict []" "[]"]
  by simp




section \<open>The claims about the summary, the fallback and the import\<close>

lemma filter_post_prints: "filter is_post (map Print ls) = []"
  by (induction ls) simp_all

lemma filter_file_prints: "filter is_file_event (map Print ls) = []"
  by (induction ls) simp_all





















lemma prints_only_run_toplevel: "prints_only (run_toplevel m globals)"
  by (induction m globals rule: run_toplevel.induct) (simp_all add: prints_only_intros)

lemma prints_only_import_from_main: "prints_only (import_from_main m name)"
  unfolding import_from_main_def exec_module_def
  by (auto intro!: prints_only_intros prints_only_run_toplevel split: option.splits)

text \<open>
  Claim C7. When the import of \<open>auto_audio_db\<close> from \<open>main\<close> raises, the script ends
  with \<open>SystemExit\<close>, whose message is the fixed text followed by the text of the
  exception. Nothing of the main block runs: the script sends no request and opens
  no file.
\<close>

theorem failed_import_aborts_before_any_request:
  "fst (import_from_main m (ascii ''auto_audio_db'') []) = Inl e \<Longrightarrow>
   fst (send_to_api m net fs) = SystemExit [Lit import_failure_message, ExcText e]
   \<and> snd (send_to_api m net fs) = snd (import_from_main m (ascii ''auto_audio_db'') [])
   \<and> filter is_post (snd (send_to_api m net fs)) = []
   \<and> filter is_file_event (snd (send_to_api m net fs)) = []"
proof -
  assume a: "fst (import_from_main m (ascii ''auto_audio_db'') []) = Inl e"
  obtain ls where ls: "snd (import_from_main m (ascii ''auto_audio_db'') []) = [] @ map Print ls"
    using prints_only_import_from_main unfolding prints_only_def by blast
  from a ls show ?thesis
    by (cases "import_from_main m (ascii ''auto_audio_db'') []")
       (simp add: send_to_api_def filter_post_prints filter_file_prints)
qed

text \<open>The file \<open>main.py\<close> of the repository is such a module.\<close>

theorem failed_import_aborts_before_any_request_witness:
  "fst (import_from_main main_py (ascii ''auto_audio_db'') []) = Inl (InvalidSyntax (ascii ''main.py'') 326)
   \<and> send_to_api main_py (Fails (Raised ConnectionError [])) Accepts =
       (SystemExit [Lit import_failure_message, ExcText (InvalidSyntax (ascii ''main.py'') 326)], [])"
proof -
  have a: "import_from_main main_py (ascii ''auto_audio_db'') [] = (Inl (InvalidSyntax (ascii ''main.py'') 326), [])"
    by (simp add: import_from_main_def exec_module_def main_py_def io_simps)
  then have "fst (import_from_main main_py (ascii ''auto_audio_db'') []) = Inl (InvalidSyntax (ascii ''main.py'') 326)"
    by simp
  from failed_import_aborts_before_any_request[OF this, of "Fails (Raised ConnectionError [])" Accepts] a
  show ?thesis by (simp add: prod_eq_iff)
qed

section \<open>The catalog of \<open>main.py\<close>\<close>

lemma ascii_eq_iff: "ascii a = ascii b \<longleftrightarrow> a = b"
  unfolding ascii_def by (rule inj_map_eq_map) (simp add: inj_on_def)

lemma dict_set_fresh: "k \<notin> fst ` set d \<Longrightarrow> dict_set d k v = d @ [(k, v)]"
  by (induction d) auto

lemma dict_store_distinct:
  "distinct (map fst (d @ items)) \<Longrightarrow> dict_store d items = d @ items"
proof (induction items arbitrary: d)
  case Nil
  then show ?case by simp
next
  case (Cons kv items)
  obtain k v where kv: "kv = (k, v)" by (cases kv)
  from Cons.prems kv have fresh: "k \<notin> fst ` set d" by auto
  from Cons.prems kv have "distinct (map fst ((d @ [(k, v)]) @ items))" by simp
  from Cons.IH[OF this] fresh kv show ?case by (simp add: dict_set_fresh)
qed

lemma dict_display_distinct: "distinct (map fst items) \<Longrightarrow> dict_display items = items"
  using dict_store_distinct[of "[]" items] by (simp add: dict_display_def)

lemma vag_group_items_ok:
  "\<forall>(B, models) \<in> set vag_group_items.
     \<exists>ms. models = PDict ms \<and>
       (\<forall>(M, gens) \<in> set ms. \<exists>es. gens = PList es \<and> (\<forall>E \<in> set es. four_string_fields E))"
  unfolding vag_group_items_def
  by (simp add: dict_display_distinct ascii_eq_iff entry_fields_def)

lemma german_premium_items_ok:
  "\<forall>(B, models) \<in> set german_premium_items.
     \<exists>ms. models = PDict ms \<and>
       (\<forall>(M, gens) \<in> set ms. \<exists>es. gens = PList es \<and> (\<forall>E \<in> set es. four_string_fields E))"
  unfolding german_premium_items_def
  by (simp add: dict_display_distinct ascii_eq_iff entry_fields_def)

lemma fragment_326_items_ok:
  "\<forall>(B, models) \<in> set fragment_326_items.
     \<exists>ms. models = PDict ms \<and>
       (\<forall>(M, gens) \<in> set ms. \<exists>es. gens = PList es \<and> (\<forall>E \<in> set es. four_string_fields E))"
  unfolding fragment_326_items_def
  by (simp add: dict_display_distinct ascii_eq_iff entry_fields_def)

lemma fragment_420_items_ok:
  "\<forall>(B, models) \<in> set fragment_420_items.
     \<exists>ms. models = PDict ms \<and>
       (\<forall>(M, gens) \<in> set ms. \<exists>es. gens = PList es \<and> (\<forall>E \<in> set es. four_string_fields E))"
  unfolding fragment_420_items_def
  by (simp add: dict_display_distinct ascii_eq_iff entry_fields_def)

lemma vag_group_keys_distinct: "distinct (map fst vag_group_items)"
  unfolding vag_group_items_def by (simp add: ascii_eq_iff)

lemma german_premium_keys_distinct: "distinct (map fst german_premium_items)"
  unfolding german_premium_items_def by (simp add: ascii_eq_iff)

text \<open>
  Claim C9. In every brand written in \<open>main.py\<close>, in the two dict displays as well as
  in the two runs of items that follow them, every model maps to a list, and every
  entry of that list is a dict with exactly the four keys \<open>generacia\<close>, \<open>roky\<close>,
  \<open>zakladny_system\<close> and \<open>premiovy_system\<close>, each with a str for its value. No key is
  repeated in the two displays, so the dicts they build hold the items as written.
  Nothing asks for a value to be non-empty: an entry of four empty strings has the
  shape as well.
\<close>

theorem every_entry_has_four_string_fields:
  "(\<forall>(B, models) \<in> set (vag_group_items @ german_premium_items
                              @ fragment_326_items @ fragment_420_items).
      \<exists>ms. models = PDict ms \<and>
        (\<forall>(M, gens) \<in> set ms. \<exists>es. gens = PList es \<and> (\<forall>E \<in> set es. four_string_fields E)))
   \<and> vag_group_data = PDict vag_group_items
   \<and> german_premium_data = PDict german_premium_items
   \<and> four_string_fields
        (PDict [(ascii ''generacia'', PStr []), (ascii ''roky'', PStr []),
                (ascii ''zakladny_system'', PStr []), (ascii ''premiovy_system'', PStr [])])"
proof (intro conjI)
  show "\<forall>(B, models) \<in> set (vag_group_items @ german_premium_items
                              @ fragment_326_items @ fragment_420_items).
      \<exists>ms. models = PDict ms \<and>
        (\<forall>(M, gens) \<in> set ms. \<exists>es. gens = PList es \<and> (\<forall>E \<in> set es. four_string_fields E))"
    unfolding set_append ball_Un
    by (intro conjI vag_group_items_ok german_premium_items_ok
          fragment_326_items_ok fragment_420_items_ok)
  show "vag_group_data = PDict vag_group_items"
    by (simp add: vag_group_data_def dict_display_distinct vag_group_keys_distinct)
  show "german_premium_data = PDict german_premium_items"
    by (simp add: german_premium_data_def dict_display_distinct german_premium_keys_distinct)
  show "four_string_fields
        (PDict [(ascii ''generacia'', PStr []), (ascii ''roky'', PStr []),
                (ascii ''zakladny_system'', PStr []), (ascii ''premiovy_system'', PStr [])])"
    by (simp add: entry_fields_def)
qed

text \<open>The brand Bentley of \<open>vag_group_data\<close>, with its one model and one entry.\<close>

theorem every_entry_has_four_string_fields_witness:
  "(ascii ''Bentley'', PDict (dict_display
            [(ascii ''Continental GT'', PList
               [PDict (dict_display
                       [(ascii ''generacia'', PStr (ascii ''Gen 3'')),
                        (ascii ''roky'', PStr (ascii ''2018-s'' @ [0xFA, 0x10D] @ ascii ''asnos'' @ [0x165])),
                        (ascii ''zakladny_system'', PStr (ascii ''Bentley Signature (10 repro, 650W)'')),
                        (ascii ''premiovy_system'', PStr (ascii ''Bang & Olufsen for Bentley (16 repro, 1500W) ALEBO Naim for Bentley (18 repro, 2200W)''))])])]))
     \<in> set (vag_group_items @ german_premium_items @ fragment_326_items @ fragment_420_items)
   \<and> four_string_fields
       (PDict (dict_display
                  [(ascii ''generacia'', PStr (ascii ''Gen 3'')),
                   (ascii ''roky'', PStr (ascii ''2018-s'' @ [0xFA, 0x10D] @ ascii ''asnos'' @ [0x165])),
                   (ascii ''zakladny_system'', PStr (ascii ''Bentley Signature (10 repro, 650W)'')),
                   (ascii ''premiovy_system'', PStr (ascii ''Bang & Olufsen for Bentley (16 repro, 1500W) ALEBO Naim for Bentley (18 repro, 2200W)''))]))"
proof -
  have mem: "(ascii ''Bentley'', PDict (dict_display
            [(ascii ''Continental GT'', PList
               [PDict (dict_display
                       [(ascii ''generacia'', PStr (ascii ''Gen 3'')),
                        (ascii ''roky'', PStr (ascii ''2018-s'' @ [0xFA, 0x10D] @ ascii ''asnos'' @ [0x165])),
                        (ascii ''zakladny_system'', PStr (ascii ''Bentley Signature (10 repro, 650W)'')),
                        (ascii ''premiovy_system'', PStr (ascii ''Bang & Olufsen for Bentley (16 repro, 1500W) ALEBO Naim for Bentley (18 repro, 2200W)''))])])]))
     \<in> set (vag_group_items @ german_premium_items @ fragment_326_items @ fragment_420_items)"
    unfolding set_append vag_group_items_def by (intro UnI1) (simp add: ascii_eq_iff)
  from every_entry_has_four_string_fields[THEN conjunct1, THEN bspec, OF mem]
  have "four_string_fields
       (PDict (dict_display
                  [(ascii ''generacia'', PStr (ascii ''Gen 3'')),
                   (ascii ''roky'', PStr (ascii ''2018-s'' @ [0xFA, 0x10D] @ ascii ''asnos'' @ [0x165])),
                   (ascii ''zakladny_system'', PStr (ascii ''Bentley Signature (10 repro, 650W)'')),
                   (ascii ''premiovy_system'', PStr (ascii ''Bang & Olufsen for Bentley (16 repro, 1500W) ALEBO Naim for Bentley (18 repro, 2200W)''))]))"
    by (auto simp: dict_display_distinct ascii_eq_iff)
  with mem show ?thesis by simp
qed

text \<open>
  Claim C8 fails on the code. The comment at the head of \<open>main.py\<close> says that the
  other parts add their data to \<open>auto_audio_db\<close>, and the importer's comment that it
  imports the real data; but the file as written does not compile, because of the
  run of items that starts on line 326, so every run of the importer ends at the
  import. With the two runs cut off, the first four statements bind \<open>auto_audio_db\<close>
  to the empty dict and leave the brands under two other names, so the body of the
  request would be \<open>{}\<close>.
\<close>

theorem main_py_gives_the_importer_no_brand:
  "send_to_api main_py net fs =
     (SystemExit [Lit import_failure_message, ExcText (InvalidSyntax (ascii ''main.py'') 326)], [])
   \<and> import_from_main (take 4 main_py) (ascii ''auto_audio_db'') [] =
       (Inr (PDict []),
        [Print [Lit (ascii ''Core datab'' @ [0xE1] @ ascii ''za inicializovan'' @ [0xE1] @ ascii ''.'')]])
   \<and> json_dumps None (PDict []) = ascii ''{}''"
  by (simp add: send_to_api_def import_from_main_def exec_module_def main_py_def io_simps
      dict_display_def ascii_eq_iff json_dumps_def) (simp add: ascii_def)

section \<open>Encoding and decoding\<close>

lemma hexval_hexdigit: "d < 16 \<Longrightarrow> hexval (hexdigit d) = Some d"
  by (auto simp: hexval_def hexdigit_def)

lemma take_hex4_control:
  "c < 32 \<Longrightarrow>
   take_hex4 (48 # 48 # hexdigit (c div 16) # hexdigit (c mod 16) # rest) = Some (c, rest)"
proof -
  assume c: "c < 32"
  then have d: "c div 16 < 16" by simp
  have m: "c mod 16 < 16" by simp
  have z: "hexval 48 = Some 0" by (simp add: hexval_def)
  show ?thesis
    by (simp add: take_hex4_def z hexval_hexdigit[OF d] hexval_hexdigit[OF m])
qed

lemma scanstring_escape_char:
  "scanstring (escape_char c @ s) = push_char c (scanstring s)"
proof -
  consider (bs) "c = 92" | (dq) "c = 34" | (b) "c = 8" | (f) "c = 12" | (n) "c = 10"
    | (r) "c = 13" | (t) "c = 9"
    | (ctl) "c < 32" "c \<noteq> 8" "c \<noteq> 12" "c \<noteq> 10" "c \<noteq> 13" "c \<noteq> 9"
    | (plain) "32 \<le> c" "c \<noteq> 92" "c \<noteq> 34"
    by linarith
  then show ?thesis
  proof cases
    case ctl
    then have ne: "c \<noteq> 92" "c \<noteq> 34" by simp_all
    from ctl ne show ?thesis
      by (simp add: escape_char_def decode_escape_def take_hex4_control)
  next
    case plain
    then have "c \<noteq> 8" "c \<noteq> 12" "c \<noteq> 10" "c \<noteq> 13" "c \<noteq> 9" "\<not> c < 32" by simp_all
    with plain show ?thesis by (simp add: escape_char_def)
  qed (simp_all add: escape_char_def decode_escape_def backslash_def)
qed

lemma scanstring_escaped:
  "scanstring (concat (map escape_char s) @ 34 # rest) = Some (s, rest)"
  by (induction s) (simp_all add: scanstring_escape_char push_char_def)

lemma parse_value_string:
  "parse_value (Suc n) (encode_basestring s @ rest) = Some (PStr s, rest)"
  by (simp add: encode_basestring_def scanstring_escaped)

lemma skip_ws_spaces: "skip_ws (replicate k 32 @ s) = skip_ws s"
  by (induction k) (simp_all add: skip_ws_def is_ws_def)

lemma skip_ws_newline_indent: "skip_ws (newline_indent indent level @ s) = skip_ws s"
proof (cases indent)
  case None
  then show ?thesis by (simp add: newline_indent_def)
next
  case (Some k)
  have "skip_ws (10 # replicate (k * level) 32 @ s) = skip_ws (replicate (k * level) 32 @ s)"
    by (simp add: skip_ws_def is_ws_def)
  with Some show ?thesis by (simp add: newline_indent_def skip_ws_spaces)
qed

lemma skip_ws_keep: "\<not> is_ws c \<Longrightarrow> skip_ws (c # s) = c # s"
  by (simp add: skip_ws_def)

lemma item_separator_shape:
  "\<exists>w. item_separator indent level = 44 # w \<and> (\<forall>s. skip_ws (w @ s) = skip_ws s)"
proof (cases indent)
  case None
  have "\<forall>s. skip_ws ([32] @ s) = skip_ws s" by (simp add: skip_ws_def is_ws_def)
  with None show ?thesis by (simp add: item_separator_def)
next
  case (Some k)
  then show ?thesis by (simp add: item_separator_def skip_ws_newline_indent)
qed

lemma iterencode_head:
  "\<exists>c t. iterencode indent level v = c # t \<and> (c = 34 \<or> c = 91 \<or> c = 123)"
proof (cases v)
  case (PStr s)
  then show ?thesis by (simp add: encode_basestring_def)
next
  case (PList xs)
  then show ?thesis by (cases xs) simp_all
next
  case (PDict kvs)
  then show ?thesis by (cases kvs) auto
qed

lemma skip_ws_iterencode: "skip_ws (iterencode indent level v @ s) = iterencode indent level v @ s"
proof -
  obtain c t where ct: "iterencode indent level v = c # t" "c = 34 \<or> c = 91 \<or> c = 123"
    using iterencode_head by blast
  then have "\<not> is_ws c" by (auto simp: is_ws_def)
  with ct show ?thesis by (simp add: skip_ws_keep)
qed

lemma iterencode_not_close:
  "\<exists>c t. iterencode indent level v @ s = c # t \<and> c \<noteq> 93 \<and> c \<noteq> 125 \<and> c \<noteq> 0xFEFF"
  using iterencode_head[of indent level v] by auto

lemma skip_ws_basestring: "skip_ws (encode_basestring k @ s) = encode_basestring k @ s"
  by (simp add: encode_basestring_def skip_ws_def is_ws_def)

lemma parse_member_encoded:
  assumes "\<And>rest. scan_once (iterencode indent level v @ rest) = Some (v, rest)"
  shows "parse_member scan_once
           (encode_basestring k @ key_separator @ iterencode indent level v @ rest)
         = Some ((k, v), rest)"
proof -
  have a: "encode_basestring k @ key_separator @ iterencode indent level v @ rest
      = 34 # (concat (map escape_char k) @ 34 # (key_separator @ iterencode indent level v @ rest))"
    by (simp add: encode_basestring_def)
  have b: "skip_ws (key_separator @ iterencode indent level v @ rest)
      = 58 # 32 # iterencode indent level v @ rest"
    by (simp add: key_separator_def skip_ws_def is_ws_def)
  have c: "skip_ws (32 # iterencode indent level v @ rest) = iterencode indent level v @ rest"
    using skip_ws_iterencode[of indent level v rest] by (simp add: skip_ws_def is_ws_def)
  show ?thesis
    unfolding a by (simp add: parse_member_def scanstring_escaped b c assms)
qed

lemma parse_open_list:
  "s = c # t \<Longrightarrow> c \<noteq> 93 \<Longrightarrow> skip_ws s = s \<Longrightarrow>
   parse_value m s = Some (x, r1) \<Longrightarrow> array_tail m r1 = Some (xs, r2) \<Longrightarrow>
   parse_value (Suc m) (91 # newline_indent indent level @ s) = Some (PList (x # xs), r2)"
  by (simp add: skip_ws_newline_indent)

lemma parse_open_dict:
  "s = c # t \<Longrightarrow> c \<noteq> 125 \<Longrightarrow> skip_ws s = s \<Longrightarrow>
   parse_member (parse_value m) s = Some (kv, r1) \<Longrightarrow> object_tail m r1 = Some (kvs, r2) \<Longrightarrow>
   parse_value (Suc m) (123 # newline_indent indent level @ s)
     = Some (PDict (dict_display (kv # kvs)), r2)"
  by (simp add: skip_ws_newline_indent)

lemma array_tail_close:
  "array_tail (Suc m) (newline_indent indent level @ 93 # rest) = Some ([], rest)"
  by (simp add: skip_ws_newline_indent skip_ws_keep is_ws_def)

lemma object_tail_close:
  "object_tail (Suc m) (newline_indent indent level @ 125 # rest) = Some ([], rest)"
  by (simp add: skip_ws_newline_indent skip_ws_keep is_ws_def)

lemma array_tail_item:
  "skip_ws s = s \<Longrightarrow>
   parse_value m s = Some (x, r1) \<Longrightarrow> array_tail m r1 = Some (xs, r2) \<Longrightarrow>
   array_tail (Suc m) (item_separator indent level @ s) = Some (x # xs, r2)"
proof -
  assume a: "skip_ws s = s" "parse_value m s = Some (x, r1)" "array_tail m r1 = Some (xs, r2)"
  obtain w where w: "item_separator indent level = 44 # w" "\<forall>s. skip_ws (w @ s) = skip_ws s"
    using item_separator_shape by blast
  have "skip_ws (44 # w @ s) = 44 # w @ s" by (simp add: skip_ws_keep is_ws_def)
  with a w show ?thesis by simp
qed

lemma object_tail_item:
  "skip_ws s = s \<Longrightarrow>
   parse_member (parse_value m) s = Some (kv, r1) \<Longrightarrow> object_tail m r1 = Some (kvs, r2) \<Longrightarrow>
   object_tail (Suc m) (item_separator indent level @ s) = Some (kv # kvs, r2)"
proof -
  assume a: "skip_ws s = s" "parse_member (parse_value m) s = Some (kv, r1)"
    "object_tail m r1 = Some (kvs, r2)"
  obtain w where w: "item_separator indent level = 44 # w" "\<forall>s. skip_ws (w @ s) = skip_ws s"
    using item_separator_shape by blast
  have "skip_ws (44 # w @ s) = 44 # w @ s" by (simp add: skip_ws_keep is_ws_def)
  with a w show ?thesis by simp
qed

lemma decode_encoded:
  "distinct_keys v \<Longrightarrow> length (iterencode indent level v) \<le> n \<Longrightarrow>
     parse_value n (iterencode indent level v @ rest) = Some (v, rest)"
  "distinct_keys_list xs \<Longrightarrow> length (iterencode_list indent level xs) < n \<Longrightarrow>
     array_tail n (iterencode_list indent level xs @ newline_indent indent l' @ 93 # rest)
       = Some (xs, rest)"
  "distinct_keys_items kvs \<Longrightarrow> length (iterencode_dict indent level kvs) < n \<Longrightarrow>
     object_tail n (iterencode_dict indent level kvs @ newline_indent indent l' @ 125 # rest)
       = Some (kvs, rest)"
proof (induction indent level v and indent level xs and indent level kvs
    arbitrary: n rest and n rest l' and n rest l'
    rule: iterencode_iterencode_list_iterencode_dict.induct)
  case (1 indent level s)
  then obtain m where "n = Suc m" by (cases n) (simp_all add: encode_basestring_def)
  then show ?case by (simp add: parse_value_string)
next
  case (2 indent level)
  then obtain m where "n = Suc m" by (cases n) simp_all
  then show ?case by (simp add: skip_ws_keep is_ws_def)
next
  case (3 indent level x xs)
  from "3.prems" obtain m where n: "n = Suc m" by (cases n) simp_all
  let ?tail = "iterencode_list indent (level + 1) xs @ newline_indent indent level @ 93 # rest"
  let ?s = "iterencode indent (level + 1) x @ ?tail"
  from "3.prems" n have lx: "length (iterencode indent (level + 1) x) \<le> m"
    and lxs: "length (iterencode_list indent (level + 1) xs) < m" by simp_all
  from "3.prems" have dx: "distinct_keys x" and dxs: "distinct_keys_list xs" by simp_all
  obtain c t where ct: "?s = c # t" "c \<noteq> 93"
    using iterencode_not_close[of indent "level + 1" x ?tail] by blast
  have sk: "skip_ws ?s = ?s" by (rule skip_ws_iterencode)
  have px: "parse_value m ?s = Some (x, ?tail)" by (rule "3.IH"(1)[OF dx lx])
  have pxs: "array_tail m ?tail = Some (xs, rest)" by (rule "3.IH"(2)[OF dxs lxs])
  from parse_open_list[OF ct sk px pxs, of indent "level + 1"] n show ?case by simp
next
  case (4 indent level)
  then obtain m where "n = Suc m" by (cases n) simp_all
  then show ?case by (simp add: skip_ws_keep is_ws_def)
next
  case (5 indent level k v kvs)
  from "5.prems" obtain m where n: "n = Suc m" by (cases n) simp_all
  let ?tail = "iterencode_dict indent (level + 1) kvs @ newline_indent indent level @ 125 # rest"
  let ?s = "encode_basestring k @ key_separator @ iterencode indent (level + 1) v @ ?tail"
  from "5.prems" n have lv: "length (iterencode indent (level + 1) v) \<le> m"
    and lkvs: "length (iterencode_dict indent (level + 1) kvs) < m" by simp_all
  from "5.prems" have dv: "distinct_keys v" and dkvs: "distinct_keys_items kvs"
    and dist: "distinct (map fst ((k, v) # kvs))" by simp_all
  have ct: "?s = 34 # (concat (map escape_char k) @ [34] @ key_separator
                @ iterencode indent (level + 1) v @ ?tail)" "(34::nat) \<noteq> 125"
    by (simp_all add: encode_basestring_def)
  have sk: "skip_ws ?s = ?s" by (rule skip_ws_basestring)
  have pv: "\<And>r. parse_value m (iterencode indent (level + 1) v @ r) = Some (v, r)"
    by (rule "5.IH"(1)[OF dv lv])
  have pm: "parse_member (parse_value m) ?s = Some ((k, v), ?tail)"
    by (rule parse_member_encoded[OF pv])
  have pt: "object_tail m ?tail = Some (kvs, rest)" by (rule "5.IH"(2)[OF dkvs lkvs])
  from parse_open_dict[OF ct sk pm pt, of indent "level + 1"] n dist show ?case
    by (simp add: dict_display_distinct)
next
  case (6 indent level)
  then obtain m where "n = Suc m" by (cases n) simp_all
  then show ?case by (simp add: array_tail_close del: array_tail.simps)
next
  case (7 indent level x xs)
  from "7.prems" obtain m where n: "n = Suc m" by (cases n) simp_all
  let ?tail = "iterencode_list indent level xs @ newline_indent indent l' @ 93 # rest"
  let ?s = "iterencode indent level x @ ?tail"
  from "7.prems" n have lx: "length (iterencode indent level x) \<le> m"
    and lxs: "length (iterencode_list indent level xs) < m"
    using item_separator_shape[of indent level] by auto
  from "7.prems" have dx: "distinct_keys x" and dxs: "distinct_keys_list xs" by simp_all
  have sk: "skip_ws ?s = ?s" by (rule skip_ws_iterencode)
  have px: "parse_value m ?s = Some (x, ?tail)" by (rule "7.IH"(1)[OF dx lx])
  have pxs: "array_tail m ?tail = Some (xs, rest)" by (rule "7.IH"(2)[OF dxs lxs])
  from array_tail_item[OF sk px pxs, of indent level] n show ?case by simp
next
  case (8 indent level)
  then obtain m where "n = Suc m" by (cases n) simp_all
  then show ?case by (simp add: object_tail_close del: object_tail.simps)
next
  case (9 indent level k v kvs)
  from "9.prems" obtain m where n: "n = Suc m" by (cases n) simp_all
  let ?tail = "iterencode_dict indent level kvs @ newline_indent indent l' @ 125 # rest"
  let ?s = "encode_basestring k @ key_separator @ iterencode indent level v @ ?tail"
  from "9.prems" n have lv: "length (iterencode indent level v) \<le> m"
    and lkvs: "length (iterencode_dict indent level kvs) < m"
    using item_separator_shape[of indent level] by auto
  from "9.prems" have dv: "distinct_keys v" and dkvs: "distinct_keys_items kvs" by simp_all
  have sk: "skip_ws ?s = ?s" by (rule skip_ws_basestring)
  have pv: "\<And>r. parse_value m (iterencode indent level v @ r) = Some (v, r)"
    by (rule "9.IH"(1)[OF dv lv])
  have pm: "parse_member (parse_value m) ?s = Some ((k, v), ?tail)"
    by (rule parse_member_encoded[OF pv])
  have pt: "object_tail m ?tail = Some (kvs, rest)" by (rule "9.IH"(2)[OF dkvs lkvs])
  from object_tail_item[OF sk pm pt, of indent level] n show ?case by simp
qed

lemma vag_group_data_distinct_keys: "distinct_keys vag_group_data"
  by (simp add: vag_group_data_def vag_group_items_def dict_display_distinct ascii_eq_iff)

lemma german_premium_data_distinct_keys: "distinct_keys german_premium_data"
  by (simp add: german_premium_data_def german_premium_items_def dict_display_distinct
      ascii_eq_iff)

text \<open>
  Claim C10. A Python dict has no repeated key. For every value built from dicts,
  lists and strs, and so for every catalog, also one in which a model maps to the
  empty list: the text that \<open>json.dumps(data, ensure_ascii=False)\<close> gives for the
  request body, and the text that \<open>json.dump(data, f, ensure_ascii=False, indent=2)\<close>
  writes to the fallback file, are both read back by \<open>json.loads\<close> as the value
  itself, with every list in its order and every dict with its keys and values.
\<close>

theorem dumps_then_loads_is_identity:
  "distinct_keys v \<Longrightarrow>
   json_loads (json_dumps None v) = Some v \<and> json_loads (json_dumps (Some 2) v) = Some v"
proof -
  assume dk: "distinct_keys v"
  have "json_loads (json_dumps indent v) = Some v" for indent
  proof -
    let ?s = "iterencode indent 0 v"
    obtain c t where ct: "?s @ [] = c # t" "c \<noteq> 0xFEFF"
      using iterencode_not_close[of indent 0 v "[]"] by blast
    then have bom: "take 1 ?s \<noteq> [0xFEFF]" by auto
    have sk: "skip_ws ?s = ?s" using skip_ws_iterencode[of indent 0 v "[]"] by simp
    have "parse_value (Suc (length ?s)) (?s @ []) = Some (v, [])"
      by (rule decode_encoded(1)[OF dk]) simp
    then have pv: "parse_value (Suc (length ?s)) ?s = Some (v, [])" by simp
    have e: "skip_ws [] = []" by (simp add: skip_ws_def)
    from bom sk pv e show ?thesis by (simp add: json_loads_def json_dumps_def)
  qed
  then show ?thesis by simp
qed

text \<open>
  Scenario 5 of the specification: a brand whose model has no generation. The empty
  list is written as \<open>[]\<close> and comes back as the empty list. The two dicts of
  \<open>main.py\<close> come back as they are, too.
\<close>

theorem dumps_then_loads_is_identity_witness:
  "distinct_keys (PDict [(ascii ''Brand'', PDict [(ascii ''Model'', PList [])])])
   \<and> json_dumps None (PDict [(ascii ''Brand'', PDict [(ascii ''Model'', PList [])])])
       = [123, 34] @ ascii ''Brand'' @ [34, 58, 32, 123, 34] @ ascii ''Model''
           @ [34, 58, 32, 91, 93, 125, 125]
   \<and> json_loads (json_dumps None (PDict [(ascii ''Brand'', PDict [(ascii ''Model'', PList [])])]))
       = Some (PDict [(ascii ''Brand'', PDict [(ascii ''Model'', PList [])])])
   \<and> json_loads (json_dumps (Some 2) (PDict [(ascii ''Brand'', PDict [(ascii ''Model'', PList [])])]))
       = Some (PDict [(ascii ''Brand'', PDict [(ascii ''Model'', PList [])])])
   \<and> json_loads (json_dumps None vag_group_data) = Some vag_group_data
   \<and> json_loads (json_dumps (Some 2) vag_group_data) = Some vag_group_data
   \<and> json_loads (json_dumps None german_premium_data) = Some german_premium_data
   \<and> json_loads (json_dumps (Some 2) german_premium_data) = Some german_premium_data"
proof -
  have dk: "distinct_keys (PDict [(ascii ''Brand'', PDict [(ascii ''Model'', PList [])])])"
    by simp
  have enc: "json_dumps None (PDict [(ascii ''Brand'', PDict [(ascii ''Model'', PList [])])])
       = [123, 34] @ ascii ''Brand'' @ [34, 58, 32, 123, 34] @ ascii ''Model''
           @ [34, 58, 32, 91, 93, 125, 125]"
    by (simp add: json_dumps_def newline_indent_def key_separator_def encode_basestring_def
        escape_char_def ascii_def)
  from dumps_then_loads_is_identity[OF dk]
    dumps_then_loads_is_identity[OF vag_group_data_distinct_keys]
    dumps_then_loads_is_identity[OF german_premium_data_distinct_keys] dk enc
  show ?thesis by simp
qed

end
